theory Spec2Isabelle
  imports Complex_Main "HOL-Library.Char_ord" "HOL-Library.List_Lexorder"
    "HOL-Library.Multiset"
begin

chapter \<open>MoodMunchies: the hybrid restaurant ranking core\<close>

text \<open>
  A shallow embedding of the Python package \<^verbatim>\<open>ml_engine\<close>: the content scorer
  (\<^verbatim>\<open>recommendation_engine.py\<close>), the collaborative filter
  (\<^verbatim>\<open>collaborative_filtering.py\<close>), the search matcher (\<^verbatim>\<open>search_matcher.py\<close>),
  the enrichment gateway (\<^verbatim>\<open>ai_data_fetcher.py\<close>) and the hybrid ranker
  (\<^verbatim>\<open>enhanced_recommendation_engine.py\<close>).

  Conventions of the embedding.
  \<^item> Python floats are modelled as \<^typ>\<open>real\<close>: every score is an exact number and
    rounding is outside the model. A comparison of a computed score with a threshold
    can therefore differ from the floating-point one when the two are equal as reals.
  \<^item> Python \<^verbatim>\<open>str\<close> is \<^typ>\<open>string\<close>, read as ASCII text: \<^verbatim>\<open>str.lower()\<close> maps the
    letters A to Z, and text with letters outside ASCII is outside the model.
  \<^item> A JSON object with a fixed set of keys is a record; a key read with
    \<^verbatim>\<open>.get(key, default)\<close> is a field that holds the default when the key is absent.
  \<^item> A dictionary whose iteration order matters is an association list in insertion
    order; a score table that is only looked up is a map.
  \<^item> \<^verbatim>\<open>list.sort(key=..., reverse=True)\<close> is a stable sort into descending order.
  \<^item> The two fitted \<^verbatim>\<open>TfidfVectorizer\<close> objects come from scikit-learn, which is not
    part of the repository: they are parameters of the model (record \<open>sklearn\<close>).
    \<^verbatim>\<open>cosine_similarity\<close> is modelled by its mathematical definition, and the truth
    value of a fitted index by the rule of SciPy's sparse matrices.
  \<^item> The order in which CPython walks a \<^verbatim>\<open>set\<close> depends on the hashes of its elements:
    it is a parameter of the model (\<open>set_order\<close>), of which only that it walks every
    element once is used.
\<close>

section \<open>Text helpers\<close>

text \<open>\<^verbatim>\<open>str.lower()\<close> on ASCII text.\<close>

definition lower_char :: "char \<Rightarrow> char" where
  "lower_char c =
     (case map_of (zip ''ABCDEFGHIJKLMNOPQRSTUVWXYZ'' ''abcdefghijklmnopqrstuvwxyz'') c of
        Some d \<Rightarrow> d
      | None \<Rightarrow> c)"

definition lower :: "string \<Rightarrow> string" where
  "lower s = map lower_char s"

text \<open>\<^verbatim>\<open>s.startswith(p)\<close> and the substring test \<^verbatim>\<open>sub in s\<close>.\<close>

fun startswith :: "string \<Rightarrow> string \<Rightarrow> bool" where
  "startswith s [] = True"
| "startswith [] (p # ps) = False"
| "startswith (c # s) (p # ps) = (c = p \<and> startswith s ps)"

fun contains :: "string \<Rightarrow> string \<Rightarrow> bool" where
  "contains [] sub = (sub = [])"
| "contains (c # s) sub = (startswith (c # s) sub \<or> contains s sub)"

text \<open>\<^verbatim>\<open>any(word in s for word in words)\<close>.\<close>

definition any_in :: "string list \<Rightarrow> string \<Rightarrow> bool" where
  "any_in ws s = list_ex (contains s) ws"

text \<open>
  Whitespace as \<^verbatim>\<open>str.isspace\<close> and the regular expression class \<^verbatim>\<open>\s\<close> see it on
  ASCII: tab, line feed, vertical tab, form feed, carriage return, the four separators
  \<^verbatim>\<open>0x1c\<close> to \<^verbatim>\<open>0x1f\<close>, and space. Word characters (\<^verbatim>\<open>\w\<close>) are letters, digits and
  the underscore.
\<close>

definition is_space :: "char \<Rightarrow> bool" where
  "is_space c = (c \<in> set [CHR 0x09, CHR 0x0A, CHR 0x0B, CHR 0x0C, CHR 0x0D,
                            CHR 0x1C, CHR 0x1D, CHR 0x1E, CHR 0x1F, CHR '' ''])"

definition is_word_char :: "char \<Rightarrow> bool" where
  "is_word_char c =
     (c \<in> set (''abcdefghijklmnopqrstuvwxyz'' @ ''ABCDEFGHIJKLMNOPQRSTUVWXYZ'' @ ''0123456789_''))"

text \<open>\<^verbatim>\<open>s.strip()\<close>, \<^verbatim>\<open>s.split()\<close> and \<^verbatim>\<open>sep.join(parts)\<close>.\<close>

definition strip :: "string \<Rightarrow> string" where
  "strip s = rev (dropWhile is_space (rev (dropWhile is_space s)))"

fun split_acc :: "string \<Rightarrow> string \<Rightarrow> string list" where
  "split_acc cur [] = (if cur = [] then [] else [rev cur])"
| "split_acc cur (c # s) =
     (if is_space c then (if cur = [] then split_acc [] s else rev cur # split_acc [] s)
      else split_acc (c # cur) s)"

definition split :: "string \<Rightarrow> string list" where
  "split s = split_acc [] s"

fun join :: "string \<Rightarrow> string list \<Rightarrow> string" where
  "join sep [] = []"
| "join sep [x] = x"
| "join sep (x # y # ys) = x @ sep @ join sep (y # ys)"

text \<open>The slice \<^verbatim>\<open>xs[:k]\<close> for a Python integer \<open>k\<close>: a negative \<open>k\<close> counts from the end.\<close>

definition slice_to :: "int \<Rightarrow> 'a list \<Rightarrow> 'a list" where
  "slice_to k xs = (if 0 \<le> k then take (nat k) xs else take (length xs - nat (- k)) xs)"

text \<open>\<^verbatim>\<open>xs.sort(key=f, reverse=True)\<close>: stable, descending.\<close>

definition sort_desc :: "('a \<Rightarrow> real) \<Rightarrow> 'a list \<Rightarrow> 'a list" where
  "sort_desc f xs = sort_key (\<lambda>x. - f x) xs"

section \<open>Data model\<close>

text \<open>The preference dictionary the ranker passes to the enrichment gateway.\<close>

record preferences =
  pref_mood :: string
  pref_occasion :: string
  pref_cuisine :: string
  pref_dietaryPreference :: string
  pref_time :: string
  pref_location :: "string option"
  pref_additionalNotes :: "string option"

text \<open>
  A restaurant object. \<open>rid\<close> is the key \<^verbatim>\<open>id\<close>; the last four fields are the provenance
  tags the gateway writes on an enriched entry.
\<close>

record restaurant =
  rid :: int
  restaurantName :: string
  cuisine :: string
  location :: string
  address :: string
  contactDetails :: string
  popularDishes :: "string list"
  dietaryOptions :: "string list"
  priceRange :: string
  ambiance :: string
  moodScores :: "string \<rightharpoonup> real"
  occasionScores :: "string \<rightharpoonup> real"
  timeScores :: "string \<rightharpoonup> real"
  source :: "string option"
  query :: "string option"
  location_hint :: "string option"
  user_preferences :: "preferences option"

text \<open>The exceptions that the model follows.\<close>

datatype error = ProviderError string | JSONDecodeError string | ValueError string

text \<open>
  The fitted vectorizers: given the corpus a vectorizer was fitted on,
  \<^verbatim>\<open>vectorizer.transform([text])\<close> as a dense row.
\<close>

record sklearn =
  content_vectorizer :: "string list \<Rightarrow> string \<Rightarrow> real list"
  search_vectorizer :: "string list \<Rightarrow> string \<Rightarrow> real list"

text \<open>
  The truth value of a fitted index, which is a SciPy sparse matrix: a matrix of one row
  and one column is true when its element is not zero, and asking any other matrix
  for its truth value raises \<^verbatim>\<open>ValueError\<close>.
\<close>

definition single_element_truth :: "real list list \<Rightarrow> error + bool" where
  "single_element_truth rows =
     (case rows of
        [[x]] \<Rightarrow> Inr (x \<noteq> 0)
      | _ \<Rightarrow> Inl (ValueError ''The truth value of an array with more than one element is ambiguous.''))"

text \<open>
  \<^verbatim>\<open>cosine_similarity\<close> of two rows: each row is scaled to unit length (a zero row
  stays zero) and the scaled rows are multiplied.
\<close>

definition dot :: "real list \<Rightarrow> real list \<Rightarrow> real" where
  "dot u v = sum_list (map2 (*) u v)"

definition l2_norm :: "real list \<Rightarrow> real" where
  "l2_norm u = sqrt (dot u u)"

definition cosine_similarity :: "real list \<Rightarrow> real list \<Rightarrow> real" where
  "cosine_similarity u v =
     (if l2_norm u = 0 \<or> l2_norm v = 0 then 0 else dot u v / (l2_norm u * l2_norm v))"

section \<open>ContentScorer (\<^verbatim>\<open>RestaurantRecommendationEngine\<close>)\<close>

definition feature_text :: "restaurant \<Rightarrow> string" where
  "feature_text r =
     join '' '' [cuisine r, ambiance r, join '' '' (popularDishes r),
                 join '' '' (dietaryOptions r), priceRange r]"

definition calculate_mood_score :: "restaurant \<Rightarrow> string \<Rightarrow> real" where
  "calculate_mood_score r mood =
     (case moodScores r (lower mood) of Some v \<Rightarrow> v | None \<Rightarrow> 0.5)"

definition calculate_occasion_score :: "restaurant \<Rightarrow> string \<Rightarrow> real" where
  "calculate_occasion_score r occasion =
     (case occasionScores r (lower occasion) of Some v \<Rightarrow> v | None \<Rightarrow> 0.5)"

definition calculate_time_score :: "restaurant \<Rightarrow> string \<Rightarrow> real" where
  "calculate_time_score r time =
     (case timeScores r (lower time) of Some v \<Rightarrow> v | None \<Rightarrow> 0.5)"

definition check_dietary_compatibility :: "restaurant \<Rightarrow> string \<Rightarrow> bool" where
  "check_dietary_compatibility r dietary_preference =
     (let dietary_options = map lower (dietaryOptions r);
          dietary_preference_lower = lower dietary_preference
      in if dietary_preference_lower = ''non-vegetarian''
         then ''non-vegetarian'' \<in> set dietary_options \<or> ''vegetarian'' \<notin> set dietary_options
         else dietary_preference_lower \<in> set dietary_options)"

definition check_cuisine_match :: "restaurant \<Rightarrow> string \<Rightarrow> real" where
  "check_cuisine_match r preferred_cuisine =
     (if lower preferred_cuisine = ''any'' then 1
      else if lower (cuisine r) = lower preferred_cuisine then 1 else 0.3)"

text \<open>
  The dictionary of intent flags. A flag is set by a conditional assignment on a
  dictionary that already holds all eight keys.
\<close>

definition set_flag :: "bool \<Rightarrow> string \<Rightarrow> (string \<times> real) list \<Rightarrow> (string \<times> real) list" where
  "set_flag c k prefs = (if c then map (\<lambda>(k', v). if k' = k then (k', 1) else (k', v)) prefs else prefs)"

definition process_additional_notes :: "string option \<Rightarrow> (string \<times> real) list" where
  "process_additional_notes notes =
     (case notes of
        None \<Rightarrow> []
      | Some n \<Rightarrow>
          if n = [] then []
          else
            let notes_lower = lower n;
                p = [(''spicy'', 0), (''quiet'', 0), (''romantic'', 0), (''family_friendly'', 0),
                     (''healthy'', 0), (''fast'', 0), (''affordable'', 0), (''upscale'', 0)];
                p = set_flag (any_in [''spicy'', ''hot'', ''heat'', ''fiery''] notes_lower) ''spicy'' p;
                p = set_flag (any_in [''quiet'', ''peaceful'', ''calm'', ''serene''] notes_lower) ''quiet'' p;
                p = set_flag (any_in [''romantic'', ''date'', ''intimate'', ''cozy''] notes_lower) ''romantic'' p;
                p = set_flag (any_in [''family'', ''kids'', ''children''] notes_lower) ''family_friendly'' p;
                p = set_flag (any_in [''healthy'', ''fresh'', ''light'', ''nutritious''] notes_lower) ''healthy'' p;
                p = set_flag (any_in [''fast'', ''quick'', ''quickly'', ''hurry''] notes_lower) ''fast'' p;
                p = set_flag (any_in [''cheap'', ''affordable'', ''budget'', ''inexpensive''] notes_lower) ''affordable'' p;
                p = set_flag (any_in [''fancy'', ''upscale'', ''elegant'', ''fine dining''] notes_lower) ''upscale'' p
            in p)"

text \<open>\<^verbatim>\<open>notes_preferences.get(flag, 0) > 0\<close>.\<close>

definition flag_active :: "(string \<times> real) list \<Rightarrow> string \<Rightarrow> bool" where
  "flag_active np k = ((case map_of np k of Some v \<Rightarrow> v | None \<Rightarrow> 0) > 0)"

text \<open>
  One block of \<^verbatim>\<open>_calculate_notes_score\<close>: when the flag is active, the weight is added
  to \<^verbatim>\<open>total_weight\<close>, and to \<^verbatim>\<open>score\<close> when the restaurant passes the test.
\<close>

definition notes_block :: "bool \<Rightarrow> bool \<Rightarrow> real \<Rightarrow> real \<times> real \<Rightarrow> real \<times> real" where
  "notes_block active matched w st =
     (case st of (score, total_weight) \<Rightarrow>
        if active then (if matched then score + w else score, total_weight + w)
        else (score, total_weight))"

definition calculate_notes_score :: "restaurant \<Rightarrow> (string \<times> real) list \<Rightarrow> real" where
  "calculate_notes_score r np =
     (if np = [] then 1
      else
        let amb = lower (ambiance r);
            price_range = lower (priceRange r);
            st = (0, 0);
            st = notes_block (flag_active np ''spicy'')
                   (lower (cuisine r) \<in> set [''indian'', ''mexican'', ''thai'', ''chinese'']) 0.3 st;
            st = notes_block (flag_active np ''quiet'')
                   (any_in [''quiet'', ''peaceful'', ''serene'', ''calm''] amb) 0.2 st;
            st = notes_block (flag_active np ''romantic'')
                   (any_in [''romantic'', ''intimate'', ''cozy'', ''elegant''] amb) 0.2 st;
            st = notes_block (flag_active np ''family_friendly'')
                   (any_in [''family'', ''casual'', ''friendly''] amb) 0.2 st;
            st = notes_block (flag_active np ''healthy'')
                   (any_in [''healthy'', ''fresh'', ''light''] amb) 0.2 st;
            st = notes_block (flag_active np ''affordable'') (price_range = ''affordable'') 0.2 st;
            st = notes_block (flag_active np ''upscale'')
                   (price_range \<in> set [''expensive'', ''moderate'']) 0.2 st
        in (case st of (score, total_weight) \<Rightarrow>
              if total_weight > 0 then score / total_weight else 1))"

text \<open>
  \<^verbatim>\<open>_calculate_content_similarity\<close>. The vectors are absent exactly when the catalog was
  empty when they were built; the row of a restaurant is the row of the first catalog
  entry with its id.
\<close>

fun find_index :: "('a \<Rightarrow> bool) \<Rightarrow> 'a list \<Rightarrow> nat option" where
  "find_index P [] = None"
| "find_index P (x # xs) = (if P x then Some 0 else map_option Suc (find_index P xs))"

definition calculate_content_similarity ::
  "sklearn \<Rightarrow> restaurant list \<Rightarrow> string \<Rightarrow> string \<Rightarrow> string \<Rightarrow> string \<Rightarrow> restaurant \<Rightarrow> real" where
  "calculate_content_similarity sk restaurants mood occasion cuisine_pref dietary_preference r =
     (if restaurants = [] then 0.5
      else
        let corpus = map feature_text restaurants;
            user_text = join '' '' [cuisine_pref, dietary_preference, mood, occasion];
            user_vector = content_vectorizer sk corpus user_text
        in case find_index (\<lambda>r'. rid r' = rid r) restaurants of
             None \<Rightarrow> 0.5
           | Some idx \<Rightarrow>
               max 0 (cosine_similarity user_vector (content_vectorizer sk corpus (corpus ! idx))))"

record scored_restaurant =
  restaurant :: restaurant
  score :: real

definition content_final_score ::
  "sklearn \<Rightarrow> restaurant list \<Rightarrow> string \<Rightarrow> string \<Rightarrow> string \<Rightarrow> string \<Rightarrow> string \<Rightarrow>
   (string \<times> real) list \<Rightarrow> restaurant \<Rightarrow> real" where
  "content_final_score sk restaurants mood occasion cuisine_pref dietary_preference time np r =
     (let mood_score = calculate_mood_score r mood;
          occasion_score = calculate_occasion_score r occasion;
          time_score = calculate_time_score r time;
          cuisine_score = check_cuisine_match r cuisine_pref;
          notes_score = calculate_notes_score r np;
          content_similarity =
            calculate_content_similarity sk restaurants mood occasion cuisine_pref dietary_preference r
      in mood_score * 0.30 + occasion_score * 0.30 + time_score * 0.10 + cuisine_score * 0.10
         + content_similarity * 0.10 + notes_score * 0.10)"

text \<open>The loop of \<^verbatim>\<open>recommend\<close> over the catalog: the dietary gate, then the score.\<close>

primrec score_restaurants ::
  "(restaurant \<Rightarrow> bool) \<Rightarrow> (restaurant \<Rightarrow> real) \<Rightarrow> restaurant list \<Rightarrow> scored_restaurant list" where
  "score_restaurants gate sc [] = []"
| "score_restaurants gate sc (r # rs) =
     (if \<not> gate r then score_restaurants gate sc rs
      else \<lparr>restaurant = r, score = sc r\<rparr> # score_restaurants gate sc rs)"

definition scored_restaurants ::
  "sklearn \<Rightarrow> restaurant list \<Rightarrow> string \<Rightarrow> string \<Rightarrow> string \<Rightarrow> string \<Rightarrow> string \<Rightarrow>
   string option \<Rightarrow> scored_restaurant list" where
  "scored_restaurants sk restaurants mood occasion cuisine_pref dietary_preference time additional_notes =
     (let notes_preferences = process_additional_notes additional_notes
      in score_restaurants (\<lambda>r. check_dietary_compatibility r dietary_preference)
           (content_final_score sk restaurants mood occasion cuisine_pref dietary_preference time
              notes_preferences)
           restaurants)"

definition base_recommend ::
  "sklearn \<Rightarrow> restaurant list \<Rightarrow> string \<Rightarrow> string \<Rightarrow> string \<Rightarrow> string \<Rightarrow> string \<Rightarrow>
   string option \<Rightarrow> scored_restaurant list" where
  "base_recommend sk restaurants mood occasion cuisine_pref dietary_preference time additional_notes =
     take 9 (sort_desc score
       (scored_restaurants sk restaurants mood occasion cuisine_pref dietary_preference time
          additional_notes))"

section \<open>CollaborativeFilter (\<^verbatim>\<open>CollaborativeFiltering\<close>)\<close>

text \<open>
  An entry of the interaction log. A user or restaurant id that is absent or \<^verbatim>\<open>null\<close> is
  \<open>None\<close>; a rating that is absent is \<open>None\<close> and is read with default 0; \<^verbatim>\<open>clicked\<close> and
  \<^verbatim>\<open>viewed\<close> are read with default \<^verbatim>\<open>False\<close>. A rating stored as \<^verbatim>\<open>null\<close> is outside the
  model: \<^verbatim>\<open>add_interaction\<close> never writes one, and on a log that holds one with valid ids
  the code raises \<^verbatim>\<open>TypeError\<close>.
\<close>

record interaction =
  userId :: "string option"
  restaurantId :: "int option"
  timestamp :: string
  rating :: "real option"
  clicked :: bool
  viewed :: bool

text \<open>
  The guard \<^verbatim>\<open>if user_id and restaurant_id\<close>: an absent value, the empty string and
  the number zero are falsy.
\<close>

definition truthy_user :: "string option \<Rightarrow> bool" where
  "truthy_user u = (case u of None \<Rightarrow> False | Some s \<Rightarrow> s \<noteq> [])"

definition truthy_restaurant :: "int option \<Rightarrow> bool" where
  "truthy_restaurant x = (case x of None \<Rightarrow> False | Some n \<Rightarrow> n \<noteq> 0)"

definition valid_interaction :: "interaction \<Rightarrow> bool" where
  "valid_interaction i = (truthy_user (userId i) \<and> truthy_restaurant (restaurantId i))"

definition interaction_score :: "interaction \<Rightarrow> real" where
  "interaction_score i =
     (case rating i of None \<Rightarrow> 0 | Some x \<Rightarrow> x) * 2
     + (if clicked i then 1 else 0) + (if viewed i then 0.5 else 0)"

text \<open>
  The first loop of \<^verbatim>\<open>_build_similarity_matrix\<close>. The accumulator holds the sparse
  user-restaurant matrix and the two id sets (kept as duplicate-free lists; they are
  sorted before use).
\<close>

record matrix_acc =
  user_restaurant_matrix :: "string \<times> int \<rightharpoonup> real"
  user_ids :: "string list"
  restaurant_ids :: "int list"

definition record_interaction :: "interaction \<Rightarrow> matrix_acc \<Rightarrow> matrix_acc" where
  "record_interaction i acc =
     (if valid_interaction i
      then \<lparr>user_restaurant_matrix =
               (user_restaurant_matrix acc)((the (userId i), the (restaurantId i)) \<mapsto> interaction_score i),
            user_ids = List.insert (the (userId i)) (user_ids acc),
            restaurant_ids = List.insert (the (restaurantId i)) (restaurant_ids acc)\<rparr>
      else acc)"

definition collect_interactions :: "interaction list \<Rightarrow> matrix_acc" where
  "collect_interactions events =
     fold record_interaction events
       \<lparr>user_restaurant_matrix = Map.empty, user_ids = [], restaurant_ids = []\<rparr>"

text \<open>The similarity matrix: for each user, the other users with their similarity.\<close>

type_synonym similarity_matrix = "(string \<times> (string \<times> real) list) list"

definition similarity_rows :: "string list \<Rightarrow> real list list \<Rightarrow> similarity_matrix" where
  "similarity_rows users vectors =
     map (\<lambda>i. (users ! i,
                map (\<lambda>j. (users ! j, cosine_similarity (vectors ! i) (vectors ! j)))
                  (filter (\<lambda>j. i \<noteq> j) [0..<length users])))
       [0..<length users]"

definition build_similarity_matrix :: "interaction list \<Rightarrow> similarity_matrix" where
  "build_similarity_matrix events =
     (if events = [] then []
      else
        let acc = collect_interactions events
        in if user_ids acc = [] then []
           else
             let user_ids_list = sort (user_ids acc);
                 restaurant_ids_list = sort (restaurant_ids acc);
                 user_vectors =
                   map (\<lambda>u. map (\<lambda>r. case user_restaurant_matrix acc (u, r) of
                                          Some s \<Rightarrow> s | None \<Rightarrow> 0)
                                restaurant_ids_list)
                     user_ids_list
             in if length user_vectors > 1 then similarity_rows user_ids_list user_vectors
                else [])"

text \<open>The filter's state: the interaction log and the matrix derived from it.\<close>

record collab_state =
  user_interactions :: "interaction list"
  user_similarity_matrix :: similarity_matrix

definition collab_init :: "interaction list \<Rightarrow> collab_state" where
  "collab_init events = \<lparr>user_interactions = events, user_similarity_matrix = build_similarity_matrix events\<rparr>"

text \<open>
  \<^verbatim>\<open>add_interaction\<close>; \<open>now\<close> is the clock reading that becomes the timestamp. The
  rating is clamped to the range from 0 to 5, and the flags are stored only when set.
\<close>

definition add_interaction ::
  "string \<Rightarrow> string \<Rightarrow> int \<Rightarrow> real option \<Rightarrow> bool \<Rightarrow> bool \<Rightarrow> collab_state \<Rightarrow> collab_state" where
  "add_interaction now user_id restaurant_id rating_opt clicked_flag viewed_flag st =
     (let i = \<lparr>userId = Some user_id, restaurantId = Some restaurant_id, timestamp = now,
                rating = map_option (\<lambda>x. max 0 (min 5 x)) rating_opt,
                clicked = clicked_flag, viewed = viewed_flag\<rparr>;
          events = user_interactions st @ [i]
      in \<lparr>user_interactions = events, user_similarity_matrix = build_similarity_matrix events\<rparr>)"

text \<open>The states the filter can be in: built from a stored log, then extended.\<close>

inductive reachable :: "collab_state \<Rightarrow> bool" where
  init: "reachable (collab_init events)"
| step: "reachable st \<Longrightarrow> reachable (add_interaction now u r x c v st)"

text \<open>The stored similarity of a pair of users, if the matrix has one.\<close>

definition similarity :: "similarity_matrix \<Rightarrow> string \<Rightarrow> string \<Rightarrow> real option" where
  "similarity m u1 u2 = (case map_of m u1 of None \<Rightarrow> None | Some row \<Rightarrow> map_of row u2)"

definition get_similar_users :: "similarity_matrix \<Rightarrow> string \<Rightarrow> int \<Rightarrow> (string \<times> real) list" where
  "get_similar_users m user_id top_k =
     (case map_of m user_id of
        None \<Rightarrow> []
      | Some row \<Rightarrow> slice_to top_k (sort_desc snd row))"

text \<open>
  The scan of \<^verbatim>\<open>get_collaborative_recommendations\<close> over the log: the restaurants of
  each user, and the sum of positive ratings per restaurant (\<^verbatim>\<open>restaurant_scores\<close> in
  the source, here \<open>rating_scores\<close>; nothing reads it afterwards). A user's restaurant set
  is kept as the list of its elements in order of first insertion.
\<close>

record scan_acc =
  user_restaurant_interactions :: "string \<Rightarrow> int list"
  rating_scores :: "int \<Rightarrow> real"

definition scan_interaction :: "interaction \<Rightarrow> scan_acc \<Rightarrow> scan_acc" where
  "scan_interaction i acc =
     (if valid_interaction i
      then
        let uid = the (userId i);
            res = the (restaurantId i);
            rat = (case rating i of None \<Rightarrow> 0 | Some x \<Rightarrow> x)
        in \<lparr>user_restaurant_interactions =
               (user_restaurant_interactions acc)
                 (uid := (if res \<in> set (user_restaurant_interactions acc uid)
                          then user_restaurant_interactions acc uid
                          else user_restaurant_interactions acc uid @ [res])),
             rating_scores =
               (if rat > 0 then (rating_scores acc)(res := rating_scores acc res + rat)
                else rating_scores acc)\<rparr>
      else acc)"

definition scan_interactions :: "interaction list \<Rightarrow> scan_acc" where
  "scan_interactions events =
     fold scan_interaction events
       \<lparr>user_restaurant_interactions = (\<lambda>u. []), rating_scores = (\<lambda>r. 0)\<rparr>"

text \<open>
  The order in which \<^verbatim>\<open>for restaurant_id in similar_user_restaurants\<close> walks a set,
  given its elements in order of first insertion. CPython walks the hash table of the
  set, so the order is neither the insertion order nor the sorted one in general.
\<close>

type_synonym set_order = "int list \<Rightarrow> int list"

text \<open>
  \<^verbatim>\<open>collaborative_scores\<close>: an insertion-ordered dictionary from restaurant id to the
  accumulated similarity.
\<close>

fun add_similarity :: "int \<Rightarrow> real \<Rightarrow> (int \<times> real) list \<Rightarrow> (int \<times> real) list" where
  "add_similarity k s [] = [(k, 0 + s)]"
| "add_similarity k s ((k', v) # kvs) =
     (if k' = k then (k', v + s) # kvs else (k', v) # add_similarity k s kvs)"

definition accumulate_scores ::
  "set_order \<Rightarrow> (string \<Rightarrow> int list) \<Rightarrow> (string \<times> real) list \<Rightarrow> (int \<times> real) list" where
  "accumulate_scores walk uri similar_users =
     fold (\<lambda>(similar_user_id, sim) cs.
             fold (\<lambda>res. add_similarity res sim) (walk (uri similar_user_id)) cs)
       similar_users []"

text \<open>\<^verbatim>\<open>{r['id']: r for r in restaurants}\<close>: the last restaurant with an id wins.\<close>

definition restaurant_dict :: "restaurant list \<Rightarrow> int \<rightharpoonup> restaurant" where
  "restaurant_dict rs = map_of (rev (map (\<lambda>r. (rid r, r)) rs))"

record collab_result =
  cf_restaurant :: restaurant
  collaborative_score :: real

primrec filter_scored ::
  "(int \<rightharpoonup> restaurant) \<Rightarrow> int list \<Rightarrow> (int \<times> real) list \<Rightarrow> collab_result list" where
  "filter_scored rd user_restaurants [] = []"
| "filter_scored rd user_restaurants (p # ps) =
     (case rd (fst p) of
        Some r \<Rightarrow>
          if fst p \<notin> set user_restaurants
          then \<lparr>cf_restaurant = r, collaborative_score = snd p\<rparr> # filter_scored rd user_restaurants ps
          else filter_scored rd user_restaurants ps
      | None \<Rightarrow> filter_scored rd user_restaurants ps)"

definition get_collaborative_recommendations ::
  "set_order \<Rightarrow> collab_state \<Rightarrow> string \<Rightarrow> restaurant list \<Rightarrow> int \<Rightarrow> collab_result list" where
  "get_collaborative_recommendations walk st user_id rs top_k =
     (if user_similarity_matrix st = [] \<or> map_of (user_similarity_matrix st) user_id = None then []
      else
        let similar_users = get_similar_users (user_similarity_matrix st) user_id 10
        in if similar_users = [] then []
           else
             let sc = scan_interactions (user_interactions st);
                 collaborative_scores =
                   accumulate_scores walk (user_restaurant_interactions sc) similar_users;
                 user_restaurants = user_restaurant_interactions sc user_id
             in slice_to top_k
                  (sort_desc collaborative_score
                     (filter_scored (restaurant_dict rs) user_restaurants collaborative_scores)))"

section \<open>SearchMatcher (\<^verbatim>\<open>SearchQueryMatcher\<close>)\<close>

definition search_text :: "restaurant \<Rightarrow> string" where
  "search_text r =
     lower (join '' '' [restaurantName r, cuisine r, location r, address r, ambiance r,
                        join '' '' (popularDishes r), join '' '' (dietaryOptions r), priceRange r])"

definition extract_keywords :: "string \<Rightarrow> string list" where
  "extract_keywords q =
     (let query_clean = map (\<lambda>c. if is_word_char c \<or> is_space c then c else CHR '' '') (lower q)
      in filter (\<lambda>word. length word > 2) (split query_clean))"

definition keyword_match_score :: "restaurant \<Rightarrow> string list \<Rightarrow> real" where
  "keyword_match_score r keywords =
     (if keywords = [] then 0
      else
        let searchable_text =
              join '' '' [lower (restaurantName r), lower (cuisine r), lower (location r),
                          lower (ambiance r), join '' '' (map lower (popularDishes r))];
            matches = length (filter (\<lambda>keyword. contains searchable_text keyword) keywords)
        in real matches / real (length keywords))"

record search_result =
  sr_restaurant :: restaurant
  sr_search_score :: real
  sr_semantic_score :: real
  sr_keyword_score :: real

text \<open>
  \<^verbatim>\<open>search\<close> over the restaurants the matcher was built with. The guard
  \<^verbatim>\<open>if not query or not self.restaurant_vectors\<close> returns the empty list for an empty
  query, and for an index that is \<^verbatim>\<open>None\<close> (the matcher was built over an empty list);
  for an index that was built it asks for the truth value of the matrix
  (\<open>single_element_truth\<close>). The row of a restaurant in the index is the transform of
  its search text.
\<close>

definition search_candidate ::
  "sklearn \<Rightarrow> string list \<Rightarrow> real list \<Rightarrow> string list \<Rightarrow> real \<Rightarrow> restaurant \<Rightarrow> search_result list" where
  "search_candidate sk corpus query_vector keywords min_score r =
     (let semantic = cosine_similarity query_vector (search_vectorizer sk corpus (search_text r));
          keyword = keyword_match_score r keywords;
          combined = semantic * 0.7 + keyword * 0.3
      in if combined \<ge> min_score
         then [\<lparr>sr_restaurant = r, sr_search_score = combined, sr_semantic_score = semantic,
                sr_keyword_score = keyword\<rparr>]
         else [])"

definition search ::
  "sklearn \<Rightarrow> restaurant list \<Rightarrow> string \<Rightarrow> int \<Rightarrow> real \<Rightarrow> error + search_result list" where
  "search sk rs q top_k min_score =
     (if q = [] then Inr []
      else if rs = [] then Inr []
      else
        let corpus = map search_text rs
        in case single_element_truth (map (search_vectorizer sk corpus) corpus) of
             Inl e \<Rightarrow> Inl e
           | Inr present \<Rightarrow>
               if \<not> present then Inr []
               else
                 let keywords = extract_keywords q;
                     query_vector = search_vectorizer sk corpus (lower q)
                 in Inr (slice_to top_k
                      (sort_desc sr_search_score
                         (concat (map (search_candidate sk corpus query_vector keywords min_score)
                                    rs)))))"

text \<open>
  \<^verbatim>\<open>match_query_to_preferences\<close>: per dimension, the first category of the table with a
  keyword that occurs in the query; the hint stays when no category matches.
\<close>

definition mood_keywords :: "(string \<times> string list) list" where
  "mood_keywords =
     [(''happy'', [''happy'', ''cheerful'', ''joyful'', ''excited'']),
      (''sad'', [''sad'', ''down'', ''depressed'', ''blue'']),
      (''stressed'', [''stressed'', ''tired'', ''exhausted'', ''busy'']),
      (''adventurous'', [''adventurous'', ''exciting'', ''new'', ''try'']),
      (''relaxed'', [''relaxed'', ''calm'', ''peaceful'', ''chill'']),
      (''celebratory'', [''celebrate'', ''celebration'', ''special'', ''party''])]"

definition occasion_keywords :: "(string \<times> string list) list" where
  "occasion_keywords =
     [(''casual meal'', [''casual'', ''quick'', ''simple'']),
      (''celebration'', [''celebration'', ''birthday'', ''anniversary'', ''special'']),
      (''quick bite'', [''quick'', ''fast'', ''grab'']),
      (''date night'', [''date'', ''romantic'', ''dinner date'']),
      (''family dinner'', [''family'', ''kids'', ''children''])]"

definition cuisine_keywords :: "(string \<times> string list) list" where
  "cuisine_keywords =
     [(''italian'', [''italian'', ''pasta'', ''pizza'']),
      (''mexican'', [''mexican'', ''taco'', ''burrito'']),
      (''indian'', [''indian'', ''curry'', ''tikka'']),
      (''japanese'', [''japanese'', ''sushi'', ''ramen'']),
      (''chinese'', [''chinese'', ''dim sum'']),
      (''american'', [''american'', ''burger'', ''bbq''])]"

definition first_match :: "(string \<times> string list) list \<Rightarrow> string \<Rightarrow> string option" where
  "first_match table q = map_option fst (find (\<lambda>entry. any_in (snd entry) q) table)"

record query_preferences =
  qp_mood :: "string option"
  qp_occasion :: "string option"
  qp_cuisine :: "string option"
  qp_dietary :: "string option"
  qp_price_range :: "string option"
  qp_keywords :: "string list"

definition match_query_to_preferences ::
  "string \<Rightarrow> string option \<Rightarrow> string option \<Rightarrow> string option \<Rightarrow> query_preferences" where
  "match_query_to_preferences q mood_hint occasion_hint cuisine_hint =
     (let query_lower = lower q
      in \<lparr>qp_mood = (case first_match mood_keywords query_lower of
                       Some v \<Rightarrow> Some v | None \<Rightarrow> mood_hint),
           qp_occasion = (case first_match occasion_keywords query_lower of
                           Some v \<Rightarrow> Some v | None \<Rightarrow> occasion_hint),
           qp_cuisine = (case first_match cuisine_keywords query_lower of
                          Some v \<Rightarrow> Some v | None \<Rightarrow> cuisine_hint),
           qp_dietary =
             (if any_in [''vegetarian'', ''veggie''] query_lower then Some ''vegetarian''
              else if any_in [''vegan''] query_lower then Some ''vegan''
              else if any_in [''gluten-free'', ''gluten free''] query_lower then Some ''gluten-free''
              else None),
           qp_price_range =
             (if any_in [''cheap'', ''affordable'', ''budget''] query_lower then Some ''affordable''
              else if any_in [''expensive'', ''fancy'', ''upscale'', ''fine dining''] query_lower
                   then Some ''expensive''
              else None),
           qp_keywords = extract_keywords q\<rparr>)"

section \<open>EnrichmentGateway (\<^verbatim>\<open>AIDataFetcher\<close>)\<close>

text \<open>
  \<^verbatim>\<open>_normalize_text\<close>: lower case and strip, then drop every character that is neither a
  word character nor whitespace, then replace each run of whitespace by one space.
\<close>

function collapse_whitespace :: "string \<Rightarrow> string" where
  "collapse_whitespace [] = []"
| "collapse_whitespace (c # s) =
     (if is_space c then CHR '' '' # collapse_whitespace (dropWhile is_space s)
      else c # collapse_whitespace s)"
  by pat_completeness auto
termination
  by (relation "measure length") (auto simp: le_imp_less_Suc length_dropWhile_le)

definition normalize_text :: "string \<Rightarrow> string" where
  "normalize_text text =
     (if text = [] then []
      else collapse_whitespace
             (filter (\<lambda>c. is_word_char c \<or> is_space c) (strip (lower text))))"

text \<open>
  The loop of \<^verbatim>\<open>_is_duplicate\<close> over the existing restaurants, for a candidate whose
  normalized name is not empty.
\<close>

primrec duplicate_among :: "string \<Rightarrow> string \<Rightarrow> restaurant list \<Rightarrow> bool" where
  "duplicate_among new_name new_address [] = False"
| "duplicate_among new_name new_address (existing # others) =
     (let existing_name = normalize_text (restaurantName existing);
          existing_address = normalize_text (address existing)
      in if new_name = existing_name then True
         else if new_name \<noteq> [] \<and> existing_name \<noteq> []
                 \<and> (contains existing_name new_name \<or> contains new_name existing_name)
                 \<and> (if new_address \<noteq> [] \<and> existing_address \<noteq> []
                     then new_address = existing_address
                     else length new_name > 5 \<and> length existing_name > 5)
              then True
         else duplicate_among new_name new_address others)"

definition is_duplicate :: "restaurant \<Rightarrow> restaurant list \<Rightarrow> bool" where
  "is_duplicate new_restaurant existing_restaurants =
     (let new_name = normalize_text (restaurantName new_restaurant);
          new_address = normalize_text (address new_restaurant)
      in if new_name = [] then False
         else duplicate_among new_name new_address existing_restaurants)"

text \<open>
  The external collaborators of the gateway. A configured client maps the prompt to
  the text of the reply, or raises; the prompt is a fixed template around the query,
  the location text and the number of results, so the client is given these three.
  \<^verbatim>\<open>json.loads\<close> parses the reply into an array of restaurant objects or a single
  object, or raises. A reply that parses into another JSON value (an array of numbers,
  \<^verbatim>\<open>null\<close>) is outside the model: the parser does not raise on it, and the loop over the
  candidates in \<^verbatim>\<open>fetch_restaurant_data\<close> then raises \<^verbatim>\<open>AttributeError\<close> outside every
  \<^verbatim>\<open>try\<close> block.
\<close>

datatype json_document = JSONArray "restaurant list" | JSONObject restaurant

record ai_services =
  gemini_model :: "(string \<times> string \<times> int \<Rightarrow> error + string) option"
  openai_client :: "(string \<times> string \<times> int \<Rightarrow> error + string) option"
  json_loads :: "string \<Rightarrow> error + json_document"

definition endswith :: "string \<Rightarrow> string \<Rightarrow> bool" where
  "endswith s suffix = startswith (rev s) (rev suffix)"

definition strip_code_fences :: "string \<Rightarrow> string" where
  "strip_code_fences reply =
     (let content = strip reply;
          content = (if startswith content ''```json'' then drop 7 content else content);
          content = (if startswith content ''```'' then drop 3 content else content);
          content = (if endswith content ''```'' then take (length content - 3) content else content)
      in strip content)"

text \<open>
  The body of the \<^verbatim>\<open>try\<close> block of \<^verbatim>\<open>_fetch_with_gemini\<close> and \<^verbatim>\<open>_fetch_with_openai\<close>:
  an exception raised by the client or by the parser leaves the block as \<open>Inl\<close>.
\<close>

definition fetch_body ::
  "(string \<times> string \<times> int \<Rightarrow> error + string) \<Rightarrow> (string \<Rightarrow> error + json_document) \<Rightarrow>
   string \<times> string \<times> int \<Rightarrow> error + restaurant list" where
  "fetch_body client parse prompt =
     (case client prompt of
        Inl e \<Rightarrow> Inl e
      | Inr reply \<Rightarrow>
          (case parse (strip_code_fences reply) of
             Inl e \<Rightarrow> Inl e
           | Inr (JSONArray rs) \<Rightarrow> Inr rs
           | Inr (JSONObject r) \<Rightarrow> Inr [r]))"

text \<open>The handler \<^verbatim>\<open>except Exception\<close>: the error is printed and the result is empty.\<close>

definition except_empty :: "error + restaurant list \<Rightarrow> restaurant list" where
  "except_empty body = (case body of Inl e \<Rightarrow> [] | Inr rs \<Rightarrow> rs)"

definition location_text :: "string option \<Rightarrow> string" where
  "location_text loc =
     (case loc of None \<Rightarrow> ''Not specified'' | Some l \<Rightarrow> if l = [] then ''Not specified'' else l)"

definition fetch_with_gemini :: "ai_services \<Rightarrow> string \<Rightarrow> string option \<Rightarrow> int \<Rightarrow> restaurant list" where
  "fetch_with_gemini ai q loc max_results =
     (case gemini_model ai of
        None \<Rightarrow> []
      | Some model \<Rightarrow> except_empty (fetch_body model (json_loads ai) (q, location_text loc, max_results)))"

definition fetch_with_openai :: "ai_services \<Rightarrow> string \<Rightarrow> string option \<Rightarrow> int \<Rightarrow> restaurant list" where
  "fetch_with_openai ai q loc max_results =
     (case openai_client ai of
        None \<Rightarrow> []
      | Some client \<Rightarrow> except_empty (fetch_body client (json_loads ai) (q, location_text loc, max_results)))"

text \<open>The gateway's state: the base catalog it loaded and the fetched-restaurant store.\<close>

record fetcher_state =
  base_restaurants :: "restaurant list"
  fetched_data :: "restaurant list"

definition enhance_query :: "string \<Rightarrow> preferences option \<Rightarrow> string" where
  "enhance_query q prefs =
     (case prefs of
        None \<Rightarrow> q
      | Some p \<Rightarrow>
          let pref_parts =
                (if pref_mood p \<noteq> [] then [''mood: '' @ pref_mood p] else [])
                @ (if pref_occasion p \<noteq> [] then [''occasion: '' @ pref_occasion p] else [])
                @ (if pref_cuisine p \<noteq> [] then [''cuisine: '' @ pref_cuisine p] else [])
                @ (if pref_dietaryPreference p \<noteq> []
                   then [''dietary: '' @ pref_dietaryPreference p] else [])
          in if pref_parts \<noteq> [] then q @ ''. Preferences: '' @ join '', '' pref_parts else q)"

text \<open>
  The loop of \<^verbatim>\<open>fetch_restaurant_data\<close> over the candidates. Every candidate is
  compared with \<open>all_existing\<close>, the list taken before the loop.
\<close>

primrec admit_candidates ::
  "restaurant list \<Rightarrow> (restaurant \<Rightarrow> restaurant) \<Rightarrow> int \<Rightarrow> restaurant list \<Rightarrow> restaurant list" where
  "admit_candidates all_existing tag next_id [] = []"
| "admit_candidates all_existing tag next_id (candidate # others) =
     (if \<not> is_duplicate candidate all_existing
      then tag (candidate\<lparr>rid := next_id\<rparr>) # admit_candidates all_existing tag (next_id + 1) others
      else admit_candidates all_existing tag next_id others)"

definition provenance ::
  "string \<Rightarrow> string option \<Rightarrow> preferences option \<Rightarrow> restaurant \<Rightarrow> restaurant" where
  "provenance q loc prefs r =
     (let r = r\<lparr>source := Some ''ai_fetched'', query := Some q, location_hint := loc\<rparr>
      in case prefs of None \<Rightarrow> r | Some p \<Rightarrow> r\<lparr>user_preferences := Some p\<rparr>)"

definition fetch_restaurant_data ::
  "ai_services \<Rightarrow> fetcher_state \<Rightarrow> string \<Rightarrow> string option \<Rightarrow> int \<Rightarrow> preferences option \<Rightarrow>
   restaurant list \<times> fetcher_state" where
  "fetch_restaurant_data ai st q loc max_results prefs =
     (let enhanced_query = enhance_query q prefs
      in if gemini_model ai = None \<and> openai_client ai = None then ([], st)
         else
           let restaurants_data =
                 (if gemini_model ai \<noteq> None then fetch_with_gemini ai enhanced_query loc max_results
                  else fetch_with_openai ai enhanced_query loc max_results)
           in if restaurants_data = [] then ([], st)
              else
                let all_existing = base_restaurants st @ fetched_data st;
                    existing_ids = map rid all_existing;
                    next_id = (case existing_ids of [] \<Rightarrow> 1000 | i # ids \<Rightarrow> fold max ids i + 1);
                    new_restaurants =
                      admit_candidates all_existing (provenance q loc prefs) next_id restaurants_data
                in if new_restaurants \<noteq> []
                   then (new_restaurants, st\<lparr>fetched_data := fetched_data st @ new_restaurants\<rparr>)
                   else (new_restaurants, st))"

definition matches_query :: "string \<Rightarrow> restaurant \<Rightarrow> bool" where
  "matches_query query_lower r =
     (let restaurant_text =
            lower (join '' '' [restaurantName r, cuisine r, location r, ambiance r])
      in contains restaurant_text query_lower
         \<or> list_ex (\<lambda>word. contains restaurant_text word)
              (filter (\<lambda>word. length word > 2) (split query_lower)))"

definition search_fetched_restaurants ::
  "ai_services \<Rightarrow> fetcher_state \<Rightarrow> string \<Rightarrow> string option \<Rightarrow> preferences option \<Rightarrow> bool \<Rightarrow>
   restaurant list \<times> fetcher_state" where
  "search_fetched_restaurants ai st q loc prefs fetch_if_not_found =
     (let matching = filter (matches_query (lower q)) (fetched_data st)
      in if matching = [] \<and> fetch_if_not_found
            \<and> (gemini_model ai \<noteq> None \<or> openai_client ai \<noteq> None)
         then (case fetch_restaurant_data ai st q loc 5 prefs of
                 (new_restaurants, st') \<Rightarrow> (matching @ new_restaurants, st'))
         else (matching, st))"

section \<open>HybridRanker (\<^verbatim>\<open>EnhancedRecommendationEngine\<close>)\<close>

text \<open>
  The engine's mutable state: the catalog of the content scorer
  (\<^verbatim>\<open>base_engine.restaurants\<close>), the list the current search matcher was built with,
  the collaborative filter and the gateway.
\<close>

record engine =
  base_engine_restaurants :: "restaurant list"
  search_matcher_restaurants :: "restaurant list"
  collab_filter :: collab_state
  ai_fetcher :: fetcher_state

text \<open>
  \<^verbatim>\<open>_merge_ai_restaurants\<close>: when the fetched store is not empty, all of it is appended
  to the catalog, the feature vectors are rebuilt and a new search matcher is built
  over the extended catalog.
\<close>

definition merge_ai_restaurants :: "engine \<Rightarrow> engine" where
  "merge_ai_restaurants e =
     (let ai_restaurants = fetched_data (ai_fetcher e)
      in if ai_restaurants \<noteq> []
         then e\<lparr>base_engine_restaurants := base_engine_restaurants e @ ai_restaurants,
                search_matcher_restaurants := base_engine_restaurants e @ ai_restaurants\<rparr>
         else e)"

text \<open>The constructor, from the contents of the three stores.\<close>

definition engine_init :: "restaurant list \<Rightarrow> interaction list \<Rightarrow> restaurant list \<Rightarrow> engine" where
  "engine_init base events fetched =
     merge_ai_restaurants
       \<lparr>base_engine_restaurants = base, search_matcher_restaurants = base,
        collab_filter = collab_init events,
        ai_fetcher = \<lparr>base_restaurants = base, fetched_data = fetched\<rparr>\<rparr>"

subsection \<open>Combining the four sources\<close>

record weights =
  content_weight :: real
  collab_weight :: real
  search_weight :: real
  ai_weight :: real

definition source_weights :: "bool \<Rightarrow> bool \<Rightarrow> weights" where
  "source_weights has_search has_ai =
     (if has_search \<or> has_ai
      then \<lparr>content_weight = 0.3, collab_weight = 0.2,
            search_weight = (if has_search then 0.3 else 0.0),
            ai_weight = (if has_ai then 0.2 else 0.0)\<rparr>
      else \<lparr>content_weight = 0.4, collab_weight = 0.3, search_weight = 0.2, ai_weight = 0.1\<rparr>)"

record source_scores =
  content_score :: real
  collab_score :: real
  search_score :: real
  ai_score :: real
  final_score :: real

definition zero_scores :: source_scores where
  "zero_scores =
     \<lparr>content_score = 0.0, collab_score = 0.0, search_score = 0.0, ai_score = 0.0,
      final_score = 0.0\<rparr>"

text \<open>
  \<^verbatim>\<open>restaurant_scores\<close> is a dictionary in insertion order: an id that is new is
  appended with all scores zero, and then the score of the source is stored.
\<close>

fun update_scores ::
  "int \<Rightarrow> (source_scores \<Rightarrow> source_scores) \<Rightarrow> (int \<times> source_scores) list \<Rightarrow>
   (int \<times> source_scores) list" where
  "update_scores k f [] = [(k, f zero_scores)]"
| "update_scores k f ((k', s) # kvs) =
     (if k' = k then (k', f s) # kvs else (k', s) # update_scores k f kvs)"

record combine_acc =
  restaurant_scores :: "(int \<times> source_scores) list"
  restaurant_data :: "int \<rightharpoonup> restaurant"

definition add_result :: "restaurant \<Rightarrow> (source_scores \<Rightarrow> source_scores) \<Rightarrow> combine_acc \<Rightarrow> combine_acc" where
  "add_result r f acc =
     \<lparr>restaurant_scores = update_scores (rid r) f (restaurant_scores acc),
      restaurant_data = (restaurant_data acc)(rid r \<mapsto> r)\<rparr>"

record ai_result =
  ai_restaurant :: restaurant
  ai_match_score :: real
  ai_source :: string

definition collect_scores ::
  "scored_restaurant list \<Rightarrow> collab_result list \<Rightarrow> search_result list \<Rightarrow> ai_result list \<Rightarrow>
   combine_acc" where
  "collect_scores content_results collab_results search_results ai_results =
     (let acc = \<lparr>restaurant_scores = [], restaurant_data = Map.empty\<rparr>;
          acc = fold (\<lambda>item. add_result (restaurant item) (\<lambda>s. s\<lparr>content_score := score item\<rparr>))
                  content_results acc;
          acc = fold (\<lambda>item. add_result (cf_restaurant item)
                                (\<lambda>s. s\<lparr>collab_score := collaborative_score item\<rparr>))
                  collab_results acc;
          acc = fold (\<lambda>item. add_result (sr_restaurant item)
                                (\<lambda>s. s\<lparr>search_score := min 1.0 (sr_search_score item * 1.2)\<rparr>))
                  search_results acc;
          acc = fold (\<lambda>item. add_result (ai_restaurant item)
                                (\<lambda>s. s\<lparr>ai_score := min 1.0 (ai_match_score item * 1.1)\<rparr>))
                  ai_results acc
      in acc)"

text \<open>The body of the loop that computes \<^verbatim>\<open>final_score\<close> for one restaurant.\<close>

definition content_norm :: "source_scores \<Rightarrow> real" where
  "content_norm s = min 1.0 (content_score s)"

definition collab_norm :: "source_scores \<Rightarrow> real" where
  "collab_norm s = (if collab_score s > 0 then min 1.0 (collab_score s / 5.0) else 0.0)"

definition search_norm :: "source_scores \<Rightarrow> real" where
  "search_norm s = min 1.0 (search_score s)"

definition ai_norm :: "source_scores \<Rightarrow> real" where
  "ai_norm s = min 1.0 (ai_score s)"

definition adjusted_weights :: "weights \<Rightarrow> source_scores \<Rightarrow> weights" where
  "adjusted_weights w s =
     (let adjusted_content_weight =
            (if collab_norm s = 0 then content_weight w + collab_weight w else content_weight w);
          adjusted_collab_weight = (if collab_norm s = 0 then 0.0 else collab_weight w);
          adjusted_search_weight = (if search_norm s = 0 then 0.0 else search_weight w);
          adjusted_content_weight =
            (if search_norm s = 0 then adjusted_content_weight + search_weight w
             else adjusted_content_weight);
          adjusted_ai_weight = (if ai_norm s = 0 then 0.0 else ai_weight w);
          adjusted_content_weight =
            (if ai_norm s = 0 then adjusted_content_weight + ai_weight w
             else adjusted_content_weight);
          weight_sum = adjusted_content_weight + adjusted_collab_weight + adjusted_search_weight
                       + adjusted_ai_weight
      in if weight_sum > 0
         then \<lparr>content_weight = adjusted_content_weight / weight_sum,
               collab_weight = adjusted_collab_weight / weight_sum,
               search_weight = adjusted_search_weight / weight_sum,
               ai_weight = adjusted_ai_weight / weight_sum\<rparr>
         else \<lparr>content_weight = adjusted_content_weight, collab_weight = adjusted_collab_weight,
               search_weight = adjusted_search_weight, ai_weight = adjusted_ai_weight\<rparr>)"

definition weighted_score :: "weights \<Rightarrow> source_scores \<Rightarrow> real" where
  "weighted_score w s =
     (let a = adjusted_weights w s
      in content_norm s * content_weight a + collab_norm s * collab_weight a
         + search_norm s * search_weight a + ai_norm s * ai_weight a)"

record final_result =
  fr_restaurant :: restaurant
  fr_score :: real
  fr_content_score :: real
  fr_collab_score :: real
  fr_search_score :: real
  fr_ai_score :: real

definition final_entry :: "weights \<Rightarrow> (int \<rightharpoonup> restaurant) \<Rightarrow> int \<times> source_scores \<Rightarrow> final_result" where
  "final_entry w rd entry =
     \<lparr>fr_restaurant = the (rd (fst entry)),
      fr_score = weighted_score w (snd entry),
      fr_content_score = content_score (snd entry),
      fr_collab_score = collab_score (snd entry),
      fr_search_score = search_score (snd entry),
      fr_ai_score = ai_score (snd entry)\<rparr>"

definition combine_recommendations ::
  "scored_restaurant list \<Rightarrow> collab_result list \<Rightarrow> search_result list \<Rightarrow> ai_result list \<Rightarrow>
   final_result list" where
  "combine_recommendations content_results collab_results search_results ai_results =
     (let w = source_weights (search_results \<noteq> []) (ai_results \<noteq> []);
          acc = collect_scores content_results collab_results search_results ai_results
      in sort_desc fr_score (map (final_entry w (restaurant_data acc)) (restaurant_scores acc)))"

subsection \<open>The ranking request\<close>

text \<open>The heuristic match score of a restaurant that came from the gateway.\<close>

definition ai_match :: "restaurant \<Rightarrow> string \<Rightarrow> string \<Rightarrow> string \<Rightarrow> ai_result" where
  "ai_match ai_rest mood occasion cuisine_pref =
     (let match_score = 0.5;
          match_score =
            (if lower (cuisine ai_rest) = lower cuisine_pref \<or> lower cuisine_pref = ''any''
             then match_score + 0.2 else match_score);
          match_score =
            (if (case moodScores ai_rest (lower mood) of Some v \<Rightarrow> v | None \<Rightarrow> 0) > 0.7
             then match_score + 0.2 else match_score);
          match_score =
            (if (case occasionScores ai_rest (lower occasion) of Some v \<Rightarrow> v | None \<Rightarrow> 0) > 0.7
             then match_score + 0.1 else match_score)
      in \<lparr>ai_restaurant = ai_rest, ai_match_score = min 1.0 match_score, ai_source = ''ai''\<rparr>)"

text \<open>A value of the query that counts as true: present and not empty.\<close>

definition truthy :: "string option \<Rightarrow> bool" where
  "truthy x = (case x of None \<Rightarrow> False | Some s \<Rightarrow> s \<noteq> [])"

record request =
  req_mood :: string
  req_occasion :: string
  req_cuisine :: string
  req_dietary_preference :: string
  req_time :: string
  req_location :: "string option"
  req_additional_notes :: "string option"
  req_user_id :: "string option"
  req_search_query :: "string option"
  req_use_ai_fetch :: bool

text \<open>
  The first step of \<^verbatim>\<open>recommend\<close>: a preference found in the query replaces the one
  of the request.
\<close>

definition override_preferences :: "request \<Rightarrow> request" where
  "override_preferences rq =
     (if truthy (req_search_query rq)
      then
        let query_prefs =
              match_query_to_preferences (the (req_search_query rq)) (Some (req_mood rq))
                (Some (req_occasion rq)) (Some (req_cuisine rq))
        in rq\<lparr>req_mood := (if truthy (qp_mood query_prefs) then the (qp_mood query_prefs)
                            else req_mood rq),
               req_occasion := (if truthy (qp_occasion query_prefs)
                                then the (qp_occasion query_prefs) else req_occasion rq),
               req_cuisine := (if truthy (qp_cuisine query_prefs)
                               then the (qp_cuisine query_prefs) else req_cuisine rq),
               req_dietary_preference :=
                 (if truthy (qp_dietary query_prefs) then the (qp_dietary query_prefs)
                  else req_dietary_preference rq)\<rparr>
      else rq)"

text \<open>
  The steps of \<^verbatim>\<open>recommend\<close> after the search: the content scorer and the
  collaborative filter run on the engine as the call found it, then the enrichment
  step, then the combination.
\<close>

definition rank_with ::
  "sklearn \<Rightarrow> set_order \<Rightarrow> ai_services \<Rightarrow> engine \<Rightarrow> request \<Rightarrow> search_result list \<Rightarrow>
   final_result list \<times> engine" where
  "rank_with sk walk ai e rq0 search_results =
     (let rq = override_preferences rq0;
          content_results =
            base_recommend sk (base_engine_restaurants e) (req_mood rq) (req_occasion rq)
              (req_cuisine rq) (req_dietary_preference rq) (req_time rq) (req_additional_notes rq);
          collab_results =
            (if truthy (req_user_id rq)
             then get_collaborative_recommendations walk (collab_filter e) (the (req_user_id rq))
                    (base_engine_restaurants e) 9
             else []);
          prefs = \<lparr>pref_mood = req_mood rq, pref_occasion = req_occasion rq,
                   pref_cuisine = req_cuisine rq,
                   pref_dietaryPreference = req_dietary_preference rq, pref_time = req_time rq,
                   pref_location = req_location rq,
                   pref_additionalNotes = req_additional_notes rq\<rparr>;
          should_fetch_ai = (req_use_ai_fetch rq \<and> truthy (req_search_query rq))
      in if should_fetch_ai
         then
           (case search_fetched_restaurants ai (ai_fetcher e) (the (req_search_query rq))
                   (req_location rq) (Some prefs) True of
              (ai_restaurants_data, fetcher') \<Rightarrow>
                let e1 = e\<lparr>ai_fetcher := fetcher'\<rparr>;
                    ai_restaurants =
                      map (\<lambda>ai_rest. ai_match ai_rest (req_mood rq) (req_occasion rq) (req_cuisine rq))
                        ai_restaurants_data;
                    e2 = (if ai_restaurants_data \<noteq> [] then merge_ai_restaurants e1 else e1)
                in (take 9 (combine_recommendations content_results collab_results search_results
                              ai_restaurants),
                    e2))
         else
           (take 9 (combine_recommendations content_results collab_results search_results []), e))"

text \<open>
  \<^verbatim>\<open>recommend\<close>: the ranked list and the engine as the call leaves it, or the exception
  that the search raised (nothing has changed the engine by then).
\<close>

definition recommend ::
  "sklearn \<Rightarrow> set_order \<Rightarrow> ai_services \<Rightarrow> engine \<Rightarrow> request \<Rightarrow>
   error + final_result list \<times> engine" where
  "recommend sk walk ai e rq0 =
     (if truthy (req_search_query rq0)
      then
        (case search sk (search_matcher_restaurants e) (the (req_search_query rq0)) 9 0.1 of
           Inl err \<Rightarrow> Inl err
         | Inr search_results \<Rightarrow> Inr (rank_with sk walk ai e rq0 search_results))
      else Inr (rank_with sk walk ai e rq0 []))"

section \<open>Sample data\<close>

text \<open>
  A restaurant with every field at its default; vectorizers with no vocabulary, for
  which every row is empty; and a sample order of walking a set, by residue modulo 8,
  which is how CPython walks a set of at most four non-negative integers whose
  residues differ.
\<close>

definition blank_restaurant :: restaurant where
  "blank_restaurant =
     \<lparr>rid = 0, restaurantName = [], cuisine = [], location = [], address = [],
      contactDetails = [], popularDishes = [], dietaryOptions = [], priceRange = [],
      ambiance = [], moodScores = Map.empty, occasionScores = Map.empty,
      timeScores = Map.empty, source = None, query = None, location_hint = None,
      user_preferences = None\<rparr>"

definition no_vectors :: sklearn where
  "no_vectors =
     \<lparr>content_vectorizer = (\<lambda>corpus text. []), search_vectorizer = (\<lambda>corpus text. [])\<rparr>"

definition residue_order :: set_order where
  "residue_order xs = sort_key (\<lambda>x. x mod 8) xs"

text \<open>The restaurant of the scoring scenario, and one for the notes score.\<close>

definition trattoria :: restaurant where
  "trattoria = blank_restaurant\<lparr>rid := 1, cuisine := ''italian'',
     dietaryOptions := [''vegetarian''], moodScores := [''happy'' \<mapsto> 0.9]\<rparr>"

definition spicy_quiet_example :: restaurant where
  "spicy_quiet_example = blank_restaurant\<lparr>cuisine := ''Indian'', ambiance := ''Lively''\<rparr>"

section \<open>The notes score as a ratio of weights\<close>

text \<open>
  The seven intent flags that \<^verbatim>\<open>_calculate_notes_score\<close> tests, each with whether the
  notes activate it, whether the restaurant passes its test, and its weight.
\<close>

definition intent_flags :: "restaurant \<Rightarrow> string \<Rightarrow> (bool \<times> bool \<times> real) list" where
  "intent_flags r notes_lower =
     [(any_in [''spicy'', ''hot'', ''heat'', ''fiery''] notes_lower,
       lower (cuisine r) \<in> set [''indian'', ''mexican'', ''thai'', ''chinese''], 0.3),
      (any_in [''quiet'', ''peaceful'', ''calm'', ''serene''] notes_lower,
       any_in [''quiet'', ''peaceful'', ''serene'', ''calm''] (lower (ambiance r)), 0.2),
      (any_in [''romantic'', ''date'', ''intimate'', ''cozy''] notes_lower,
       any_in [''romantic'', ''intimate'', ''cozy'', ''elegant''] (lower (ambiance r)), 0.2),
      (any_in [''family'', ''kids'', ''children''] notes_lower,
       any_in [''family'', ''casual'', ''friendly''] (lower (ambiance r)), 0.2),
      (any_in [''healthy'', ''fresh'', ''light'', ''nutritious''] notes_lower,
       any_in [''healthy'', ''fresh'', ''light''] (lower (ambiance r)), 0.2),
      (any_in [''cheap'', ''affordable'', ''budget'', ''inexpensive''] notes_lower,
       lower (priceRange r) = ''affordable'', 0.2),
      (any_in [''fancy'', ''upscale'', ''elegant'', ''fine dining''] notes_lower,
       lower (priceRange r) \<in> set [''expensive'', ''moderate''], 0.2)]"

text \<open>
  Matched weight over total weight of the active flags, and 1 when no weight is
  active.
\<close>

definition weight_ratio :: "(bool \<times> bool \<times> real) list \<Rightarrow> real" where
  "weight_ratio flags =
     (let total_weight = (\<Sum>(active, matched, w)\<leftarrow>flags. if active then w else 0);
          matched_weight = (\<Sum>(active, matched, w)\<leftarrow>flags. if active \<and> matched then w else 0)
      in if total_weight > 0 then matched_weight / total_weight else 1)"

text \<open>The same flags when every flag carries the same weight.\<close>

definition equal_weights :: "(bool \<times> bool \<times> real) list \<Rightarrow> (bool \<times> bool \<times> real) list" where
  "equal_weights flags = map (\<lambda>(active, matched, w). (active, matched, 1)) flags"

section \<open>The combine step as the specification words it\<close>

text \<open>
  The sub-score that a result list gives the restaurant with id \<open>i\<close>: the one of the last
  item of the list with that id, and 0 when the list has no such item. Search and ai
  scores are stored multiplied by 1.2 and by 1.1, capped at 1.
\<close>

definition latest :: "int \<Rightarrow> (int \<times> real) list \<Rightarrow> real" where
  "latest i entries = (case map_of (rev entries) i of None \<Rightarrow> 0 | Some v \<Rightarrow> v)"

definition content_of :: "scored_restaurant list \<Rightarrow> int \<Rightarrow> real" where
  "content_of content_results i =
     latest i (map (\<lambda>item. (rid (restaurant item), score item)) content_results)"

definition collab_of :: "collab_result list \<Rightarrow> int \<Rightarrow> real" where
  "collab_of collab_results i =
     latest i (map (\<lambda>item. (rid (cf_restaurant item), collaborative_score item)) collab_results)"

definition search_of :: "search_result list \<Rightarrow> int \<Rightarrow> real" where
  "search_of search_results i =
     latest i (map (\<lambda>item. (rid (sr_restaurant item), min 1.0 (sr_search_score item * 1.2)))
                 search_results)"

definition ai_of :: "ai_result list \<Rightarrow> int \<Rightarrow> real" where
  "ai_of ai_results i =
     latest i (map (\<lambda>item. (rid (ai_restaurant item), min 1.0 (ai_match_score item * 1.1)))
                 ai_results)"

text \<open>
  The weights as section 4.6 of the specification states them: one table when the
  request has search or ai results, another when it has neither.
\<close>

definition stated_weights :: "bool \<Rightarrow> bool \<Rightarrow> weights" where
  "stated_weights has_search has_ai =
     (if has_search \<or> has_ai
      then \<lparr>content_weight = 3 / 10, collab_weight = 2 / 10, search_weight = 3 / 10,
            ai_weight = 2 / 10\<rparr>
      else \<lparr>content_weight = 4 / 10, collab_weight = 3 / 10, search_weight = 2 / 10,
            ai_weight = 1 / 10\<rparr>)"

text \<open>
  The weights that the combine step configures: in the first table, a source whose
  result list is empty has weight 0.
\<close>

definition configured_weights :: "bool \<Rightarrow> bool \<Rightarrow> weights" where
  "configured_weights has_search has_ai =
     (if has_search \<or> has_ai
      then \<lparr>content_weight = 3 / 10, collab_weight = 2 / 10,
            search_weight = (if has_search then 3 / 10 else 0),
            ai_weight = (if has_ai then 2 / 10 else 0)\<rparr>
      else \<lparr>content_weight = 4 / 10, collab_weight = 3 / 10, search_weight = 2 / 10,
            ai_weight = 1 / 10\<rparr>)"

text \<open>The sum of the four weights.\<close>

definition total_weight :: "weights \<Rightarrow> real" where
  "total_weight w = content_weight w + collab_weight w + search_weight w + ai_weight w"

text \<open>
  Redistribution as the specification words it, from the three normalized sub-scores
  of a restaurant: the weight of every source whose normalized score is zero moves
  onto the content weight, and all four are divided by the sum of the weights.
\<close>

definition redistributed_weights :: "weights \<Rightarrow> real \<Rightarrow> real \<Rightarrow> real \<Rightarrow> weights" where
  "redistributed_weights w collab_n search_n ai_n =
     \<lparr>content_weight =
        (content_weight w + (if collab_n = 0 then collab_weight w else 0)
         + (if search_n = 0 then search_weight w else 0)
         + (if ai_n = 0 then ai_weight w else 0)) / total_weight w,
      collab_weight = (if collab_n = 0 then 0 else collab_weight w / total_weight w),
      search_weight = (if search_n = 0 then 0 else search_weight w / total_weight w),
      ai_weight = (if ai_n = 0 then 0 else ai_weight w / total_weight w)\<rparr>"

text \<open>
  The final score as the specification words it: the weights of section 4.6,
  redistributed, times the normalized sub-scores.
\<close>

definition stated_blend :: "bool \<Rightarrow> bool \<Rightarrow> real \<Rightarrow> real \<Rightarrow> real \<Rightarrow> real \<Rightarrow> real" where
  "stated_blend has_search has_ai content_n collab_n search_n ai_n =
     (let a = redistributed_weights (stated_weights has_search has_ai) collab_n search_n ai_n
      in content_n * content_weight a + collab_n * collab_weight a
         + search_n * search_weight a + ai_n * ai_weight a)"

text \<open>
  The entry of a score dictionary for an id, all zero when the id has none.
\<close>

definition scores_of :: "(int \<times> source_scores) list \<Rightarrow> int \<Rightarrow> source_scores" where
  "scores_of kvs i = (case map_of kvs i of None \<Rightarrow> zero_scores | Some s \<Rightarrow> s)"

text \<open>
  What holds of the accumulator of the combine step throughout: the ids of the score
  dictionary are distinct, and the restaurant stored for an id has that id.
\<close>

definition combine_invariant :: "combine_acc \<Rightarrow> bool" where
  "combine_invariant acc =
     (distinct (map fst (restaurant_scores acc))
      \<and> (\<forall>i \<in> fst ` set (restaurant_scores acc).
            \<exists>r. restaurant_data acc i = Some r \<and> rid r = i))"

text \<open>
  A request with one content result (score 0.67) and one search result (score 0.5) for
  the same restaurant, and no collaborative or ai result.
\<close>

definition content_and_search :: "final_result list" where
  "content_and_search =
     combine_recommendations [\<lparr>restaurant = trattoria, score = 67 / 100\<rparr>] []
       [\<lparr>sr_restaurant = trattoria, sr_search_score = 1 / 2, sr_semantic_score = 1 / 2,
         sr_keyword_score = 1 / 2\<rparr>] []"

text \<open>
  The interaction scenario: user \<open>a\<close> rated restaurant 10 with 5; user \<open>b\<close> rated
  restaurant 10 with 5 and restaurant 20 with 4. The last rating arrives through
  \<^verbatim>\<open>add_interaction\<close>.
\<close>

definition rated :: "string \<Rightarrow> int \<Rightarrow> real \<Rightarrow> interaction" where
  "rated u r x =
     \<lparr>userId = Some u, restaurantId = Some r, timestamp = ''2024-01-01T00:00:00'',
      rating = Some x, clicked = False, viewed = False\<rparr>"

definition scenario_log :: "interaction list" where
  "scenario_log = [rated ''a'' 10 5, rated ''b'' 10 5, rated ''b'' 20 4]"

definition scenario_state :: collab_state where
  "scenario_state =
     add_interaction ''2024-01-01T00:00:00'' ''b'' 20 (Some 4) False False
       (collab_init [rated ''a'' 10 5, rated ''b'' 10 5])"

text \<open>Whether the log holds an interaction of the user with the restaurant that the filter counts.\<close>

definition interacted :: "interaction list \<Rightarrow> string \<Rightarrow> int \<Rightarrow> bool" where
  "interacted events u r =
     list_ex (\<lambda>i. valid_interaction i \<and> userId i = Some u \<and> restaurantId i = Some r) events"

text \<open>The catalog of the scenario: restaurants 10, 20 and 30.\<close>

definition scenario_catalog :: "restaurant list" where
  "scenario_catalog =
     [blank_restaurant\<lparr>rid := 10\<rparr>, blank_restaurant\<lparr>rid := 20\<rparr>, blank_restaurant\<lparr>rid := 30\<rparr>]"

text \<open>The accumulated similarity of a restaurant id, zero when the id has no entry.\<close>

definition total_of :: "(int \<times> real) list \<Rightarrow> int \<Rightarrow> real" where
  "total_of kvs k = (case map_of kvs k of None \<Rightarrow> 0 | Some v \<Rightarrow> v)"

text \<open>
  The recommendations as the specification words them. The ten most similar users of
  a user: the first ten of the user's row of the matrix in descending order of
  similarity (none when the matrix has no row for the user).
\<close>

definition top_similar_users :: "similarity_matrix \<Rightarrow> string \<Rightarrow> (string \<times> real) list" where
  "top_similar_users m u =
     (case map_of m u of None \<Rightarrow> [] | Some row \<Rightarrow> take 10 (sort_key (\<lambda>p. - snd p) row))"

text \<open>The sum of the similarities of those similar users who interacted with a restaurant.\<close>

definition similarity_sum :: "interaction list \<Rightarrow> (string \<times> real) list \<Rightarrow> int \<Rightarrow> real" where
  "similarity_sum events similar r =
     (\<Sum>(v, sim)\<leftarrow>similar. if interacted events v r then sim else 0)"

text \<open>
  The ids that may be recommended: those of the catalog with which a similar user
  interacted and the target user did not.
\<close>

definition eligible ::
  "interaction list \<Rightarrow> (string \<times> real) list \<Rightarrow> string \<Rightarrow> restaurant list \<Rightarrow> int list" where
  "eligible events similar u rs =
     remdups (filter (\<lambda>r. list_ex (\<lambda>p. interacted events (fst p) r) similar
                          \<and> \<not> interacted events u r)
                (map rid rs))"

text \<open>
  A second log: users \<open>a\<close>, \<open>b\<close> and \<open>c\<close> rated restaurant 10; \<open>b\<close> also rated 20 and \<open>c\<close>
  also rated 30. User \<open>c\<close> is the more similar to \<open>a\<close>.
\<close>

definition three_user_log :: "interaction list" where
  "three_user_log =
     [rated ''a'' 10 5, rated ''b'' 10 3, rated ''b'' 20 4, rated ''c'' 10 4, rated ''c'' 30 3]"

section \<open>Provider failures and sample providers\<close>

text \<open>
  The client that \<^verbatim>\<open>fetch_restaurant_data\<close> uses: Gemini when configured, else OpenAI.
  The provider fails on a request when the \<^verbatim>\<open>try\<close> block around that client's call
  ends in an exception (raised by the client or by the parser).
\<close>

definition selected_client :: "ai_services \<Rightarrow> (string \<times> string \<times> int \<Rightarrow> error + string) option" where
  "selected_client ai =
     (case gemini_model ai of Some model \<Rightarrow> Some model | None \<Rightarrow> openai_client ai)"

definition provider_fails :: "ai_services \<Rightarrow> string \<Rightarrow> string option \<Rightarrow> int \<Rightarrow> bool" where
  "provider_fails ai q loc max_results =
     (case selected_client ai of
        None \<Rightarrow> False
      | Some client \<Rightarrow> isl (fetch_body client (json_loads ai) (q, location_text loc, max_results)))"

text \<open>
  An engine without API keys; a Gemini client whose call raises; an OpenAI client whose
  reply does not parse; and a Gemini client whose reply parses into two candidates
  with the same normalized name.
\<close>

definition no_ai :: ai_services where
  "no_ai = \<lparr>gemini_model = None, openai_client = None,
             json_loads = (\<lambda>s. Inl (JSONDecodeError s))\<rparr>"

definition unreachable_gemini :: ai_services where
  "unreachable_gemini =
     \<lparr>gemini_model = Some (\<lambda>prompt. Inl (ProviderError ''connection refused'')),
      openai_client = None,
      json_loads = (\<lambda>s. Inl (JSONDecodeError s))\<rparr>"

definition garbled_openai :: ai_services where
  "garbled_openai =
     \<lparr>gemini_model = None,
      openai_client = Some (\<lambda>prompt. Inr ''Sorry, I cannot help with that.''),
      json_loads = (\<lambda>s. Inl (JSONDecodeError s))\<rparr>"

definition twin_candidates :: "restaurant list" where
  "twin_candidates =
     [blank_restaurant\<lparr>restaurantName := ''Taco Town''\<rparr>,
      blank_restaurant\<lparr>restaurantName := ''taco town!''\<rparr>]"

definition twin_gemini :: ai_services where
  "twin_gemini =
     \<lparr>gemini_model = Some (\<lambda>prompt. Inr ''[{restaurantName: Taco Town}, {restaurantName: taco town!}]''),
      openai_client = None,
      json_loads = (\<lambda>s. Inr (JSONArray twin_candidates))\<rparr>"

definition empty_store :: fetcher_state where
  "empty_store = \<lparr>base_restaurants = [], fetched_data = []\<rparr>"

section \<open>A ranking request run twice\<close>

text \<open>
  An engine whose catalog is one restaurant, fetched earlier and stored without a name,
  and a request with the search query \<open>mexican\<close>. The vocabulary of both vectorizers is
  the one term \<open>mexican\<close>, which every text of the request and of the catalog holds
  once: every row is the single number 1 (\<open>unit_vectors\<close>), and the index of the matcher
  has one element as long as the catalog has one restaurant.
\<close>

definition cantina :: restaurant where
  "cantina = blank_restaurant\<lparr>rid := 1000, cuisine := ''mexican'', source := Some ''ai_fetched''\<rparr>"

definition unit_vectors :: sklearn where
  "unit_vectors =
     \<lparr>content_vectorizer = (\<lambda>corpus text. [1]), search_vectorizer = (\<lambda>corpus text. [1])\<rparr>"

definition lone_engine :: engine where
  "lone_engine = engine_init [] [] [cantina]"

definition lone_request :: request where
  "lone_request =
     \<lparr>req_mood = ''happy'', req_occasion = ''lunch'', req_cuisine = ''any'',
      req_dietary_preference = ''non-vegetarian'', req_time = ''noon'', req_location = None,
      req_additional_notes = None, req_user_id = None, req_search_query = Some ''mexican'',
      req_use_ai_fetch = True\<rparr>"

definition cantina_found :: search_result where
  "cantina_found =
     \<lparr>sr_restaurant = cantina, sr_search_score = 1, sr_semantic_score = 1, sr_keyword_score = 1\<rparr>"

text \<open>
  Two calls of \<^verbatim>\<open>recommend\<close> with the same arguments on one engine object: the second
  call finds the engine as the first one left it (a call that raises leaves it as it
  was). Nothing is written to a store between the calls unless a call itself does.
\<close>

definition engine_after :: "engine \<Rightarrow> error + final_result list \<times> engine \<Rightarrow> engine" where
  "engine_after e out = (case out of Inl err \<Rightarrow> e | Inr (results, e') \<Rightarrow> e')"

definition recommend_twice ::
  "sklearn \<Rightarrow> set_order \<Rightarrow> ai_services \<Rightarrow> engine \<Rightarrow> request \<Rightarrow>
   (error + final_result list \<times> engine) \<times> (error + final_result list \<times> engine)" where
  "recommend_twice sk walk ai e rq =
     (let first_out = recommend sk walk ai e rq
      in (first_out, recommend sk walk ai (engine_after e first_out) rq))"

text \<open>What a call shows its caller: the restaurants in order with their scores, or the exception.\<close>

definition ranking :: "error + final_result list \<times> engine \<Rightarrow> error + (int \<times> real) list" where
  "ranking out =
     (case out of
        Inl err \<Rightarrow> Inl err
      | Inr (results, e') \<Rightarrow> Inr (map (\<lambda>x. (rid (fr_restaurant x), fr_score x)) results))"

chapter \<open>Properties\<close>

section \<open>The dietary gate\<close>

lemma set_score_restaurants:
  "restaurant ` set (score_restaurants gate sc rs) = {r \<in> set rs. gate r}"
  by (induction rs) auto

text \<open>
  Claim C3. A restaurant of the catalog is scored exactly when it passes the dietary
  check. The check: for the preference \<open>non-vegetarian\<close> (in any letter case) the
  restaurant passes iff it lists \<open>non-vegetarian\<close> or does not list \<open>vegetarian\<close>; for
  any other preference it passes iff the lower-cased preference is among its
  lower-cased dietary options. In particular a restaurant whose only option is
  \<open>vegetarian\<close> fails for \<open>non-vegetarian\<close>, and one whose only option is
  \<open>non-vegetarian\<close> passes.
\<close>

theorem dietary_gate:
  "restaurant ` set (scored_restaurants sk rs mood occasion cuisine_pref dp time notes)
     = {r \<in> set rs. check_dietary_compatibility r dp}
   \<and> check_dietary_compatibility r dp =
       (if lower dp = ''non-vegetarian''
        then ''non-vegetarian'' \<in> lower ` set (dietaryOptions r)
             \<or> ''vegetarian'' \<notin> lower ` set (dietaryOptions r)
        else lower dp \<in> lower ` set (dietaryOptions r))
   \<and> (dietaryOptions r = [''vegetarian''] \<longrightarrow> \<not> check_dietary_compatibility r ''non-vegetarian'')
   \<and> (dietaryOptions r = [''non-vegetarian''] \<longrightarrow> check_dietary_compatibility r ''non-vegetarian'')"
proof -
  have gate: "restaurant ` set (scored_restaurants sk rs mood occasion cuisine_pref dp time notes)
     = {r \<in> set rs. check_dietary_compatibility r dp}"
    unfolding scored_restaurants_def Let_def by (rule set_score_restaurants)
  have rule: "check_dietary_compatibility r dp =
       (if lower dp = ''non-vegetarian''
        then ''non-vegetarian'' \<in> lower ` set (dietaryOptions r)
             \<or> ''vegetarian'' \<notin> lower ` set (dietaryOptions r)
        else lower dp \<in> lower ` set (dietaryOptions r))"
    by (simp add: check_dietary_compatibility_def Let_def)
  have l1: "lower ''non-vegetarian'' = ''non-vegetarian''"
    by (simp add: lower_def lower_char_def)
  have l2: "lower ''vegetarian'' = ''vegetarian''"
    by (simp add: lower_def lower_char_def)
  have veg: "dietaryOptions r = [''vegetarian''] \<longrightarrow>
             \<not> check_dietary_compatibility r ''non-vegetarian''"
    by (simp add: check_dietary_compatibility_def Let_def l1 l2)
  have nonveg: "dietaryOptions r = [''non-vegetarian''] \<longrightarrow>
                check_dietary_compatibility r ''non-vegetarian''"
    by (simp add: check_dietary_compatibility_def Let_def l1)
  from gate rule veg nonveg show ?thesis by blast
qed

theorem dietary_gate_witness:
  "map (rid \<circ> restaurant)
     (scored_restaurants no_vectors
        [blank_restaurant\<lparr>rid := 1, dietaryOptions := [''Vegetarian'']\<rparr>,
         blank_restaurant\<lparr>rid := 2, dietaryOptions := [''non-vegetarian'']\<rparr>,
         blank_restaurant\<lparr>rid := 3, dietaryOptions := [''vegan'']\<rparr>]
        ''happy'' ''celebration'' ''italian'' ''Non-Vegetarian'' ''dinner'' None) = [2, 3]"
  using dietary_gate [of no_vectors
        "[blank_restaurant\<lparr>rid := 1, dietaryOptions := [''Vegetarian'']\<rparr>,
         blank_restaurant\<lparr>rid := 2, dietaryOptions := [''non-vegetarian'']\<rparr>,
         blank_restaurant\<lparr>rid := 3, dietaryOptions := [''vegan'']\<rparr>]"
        "''happy''" "''celebration''" "''italian''" "''Non-Vegetarian''" "''dinner''" None
        "blank_restaurant\<lparr>dietaryOptions := [''vegetarian'']\<rparr>"]
  by (simp add: scored_restaurants_def Let_def check_dietary_compatibility_def
        blank_restaurant_def lower_def lower_char_def)

section \<open>The content score lies between 0 and 1\<close>

text \<open>The Cauchy-Schwarz inequality for the dot product of two rows.\<close>

lemma dot_Nil [simp]: "dot [] v = 0" "dot u [] = 0"
  by (simp_all add: dot_def)

lemma dot_Cons [simp]: "dot (x # u) (y # v) = x * y + dot u v"
  by (simp add: dot_def)

lemma dot_self_nonneg: "0 \<le> dot u u"
  by (induction u) simp_all

lemma cs_step:
  fixes x y S A B :: real
  assumes S: "S\<^sup>2 \<le> A * B" and A: "0 \<le> A" and B: "0 \<le> B"
  shows "(x * y + S)\<^sup>2 \<le> (x * x + A) * (y * y + B)"
proof -
  have "\<bar>S\<bar> \<le> sqrt (A * B)"
    using S by (metis real_sqrt_abs real_sqrt_le_iff)
  then have absS: "\<bar>S\<bar> \<le> sqrt A * sqrt B"
    by (simp add: real_sqrt_mult)
  define a where "a = \<bar>x\<bar> * sqrt B"
  define b where "b = \<bar>y\<bar> * sqrt A"
  have "a\<^sup>2 = x\<^sup>2 * B" using B by (simp add: a_def power_mult_distrib)
  then have a2: "a\<^sup>2 = x * x * B" by (simp add: power2_eq_square)
  have "b\<^sup>2 = y\<^sup>2 * A" using A by (simp add: b_def power_mult_distrib)
  then have b2: "b\<^sup>2 = y * y * A" by (simp add: power2_eq_square)
  have "2 * (x * y * S) \<le> 2 * (\<bar>x\<bar> * \<bar>y\<bar> * \<bar>S\<bar>)"
    by (metis abs_ge_self abs_mult mult_le_cancel_left_pos zero_less_numeral)
  also have "\<dots> \<le> 2 * (\<bar>x\<bar> * \<bar>y\<bar> * (sqrt A * sqrt B))"
    using absS by (simp add: mult_left_mono)
  also have "\<dots> = 2 * a * b" by (simp add: a_def b_def)
  also have "\<dots> \<le> a\<^sup>2 + b\<^sup>2"
    using sum_squares_bound [of a b] by simp
  finally have cross: "2 * (x * y * S) \<le> x * x * B + y * y * A"
    by (simp add: a2 b2)
  have "(x * y + S)\<^sup>2 = x * x * (y * y) + 2 * (x * y * S) + S\<^sup>2"
    by (simp add: power2_eq_square algebra_simps)
  also have "\<dots> \<le> x * x * (y * y) + (x * x * B + y * y * A) + A * B"
    using cross S by linarith
  also have "\<dots> = (x * x + A) * (y * y + B)"
    by (simp add: algebra_simps)
  finally show ?thesis .
qed

lemma cauchy_schwarz: "(dot u v)\<^sup>2 \<le> dot u u * dot v v"
proof (induction u arbitrary: v)
  case Nil
  then show ?case by simp
next
  case (Cons x u)
  show ?case
  proof (cases v)
    case Nil
    then show ?thesis by simp
  next
    case (Cons y w)
    then show ?thesis
      using cs_step [OF Cons.IH [of w] dot_self_nonneg dot_self_nonneg, of x y] by simp
  qed
qed

lemma abs_dot_le: "\<bar>dot u v\<bar> \<le> l2_norm u * l2_norm v"
proof -
  have "\<bar>dot u v\<bar> = sqrt ((dot u v)\<^sup>2)" by simp
  also have "\<dots> \<le> sqrt (dot u u * dot v v)"
    using cauchy_schwarz real_sqrt_le_iff by blast
  finally show ?thesis by (simp add: l2_norm_def real_sqrt_mult)
qed

lemma cosine_similarity_bounds: "\<bar>cosine_similarity u v\<bar> \<le> 1"
proof (cases "l2_norm u = 0 \<or> l2_norm v = 0")
  case True
  then show ?thesis by (simp add: cosine_similarity_def)
next
  case False
  have nn: "0 \<le> l2_norm u" "0 \<le> l2_norm v"
    by (simp_all add: l2_norm_def dot_self_nonneg)
  with False have pos: "0 < l2_norm u * l2_norm v" by simp
  have "\<bar>cosine_similarity u v\<bar> = \<bar>dot u v\<bar> / (l2_norm u * l2_norm v)"
    using False nn by (simp add: cosine_similarity_def abs_mult)
  also have "\<dots> \<le> 1" using abs_dot_le [of u v] pos by simp
  finally show ?thesis .
qed

text \<open>The notes score keeps \<open>0 \<le> score \<le> total_weight\<close> through every block.\<close>

lemma notes_block_tally:
  assumes "0 \<le> w" and "0 \<le> fst st \<and> fst st \<le> snd st"
  shows "0 \<le> fst (notes_block a m w st) \<and> fst (notes_block a m w st) \<le> snd (notes_block a m w st)"
  using assms by (cases st) (simp add: notes_block_def)

lemma tally_ratio:
  assumes "0 \<le> fst st \<and> fst st \<le> snd st"
  shows "0 \<le> (case st of (s, t) \<Rightarrow> if t > 0 then s / t else (1::real))
         \<and> (case st of (s, t) \<Rightarrow> if t > 0 then s / t else (1::real)) \<le> 1"
  using assms by (cases st) simp

lemma calculate_notes_score_bounds:
  "0 \<le> calculate_notes_score r np \<and> calculate_notes_score r np \<le> 1"
proof (cases "np = []")
  case True
  then show ?thesis by (simp add: calculate_notes_score_def)
next
  case False
  then show ?thesis
    unfolding calculate_notes_score_def Let_def
    by (simp only: if_False) (intro tally_ratio notes_block_tally; simp)
qed

lemma score_restaurants_score:
  "x \<in> set (score_restaurants gate sc rs) \<Longrightarrow> score x = sc (restaurant x)"
  by (induction rs) (auto split: if_splits)

lemma label_score_bounds:
  assumes "ran m \<subseteq> {0..1}"
  shows "0 \<le> (case m k of Some v \<Rightarrow> v | None \<Rightarrow> (0.5::real))
         \<and> (case m k of Some v \<Rightarrow> v | None \<Rightarrow> (0.5::real)) \<le> 1"
proof (cases "m k")
  case None
  then show ?thesis by simp
next
  case (Some v)
  then have "v \<in> ran m" by (auto simp: ran_def)
  with assms Some show ?thesis by auto
qed

lemma check_cuisine_match_bounds:
  "0 \<le> check_cuisine_match r c \<and> check_cuisine_match r c \<le> 1"
  by (simp add: check_cuisine_match_def)

lemma calculate_content_similarity_bounds:
  "0 \<le> calculate_content_similarity sk rs mood occasion cuisine_pref dp r
   \<and> calculate_content_similarity sk rs mood occasion cuisine_pref dp r \<le> 1"
  using cosine_similarity_bounds
  by (auto simp: calculate_content_similarity_def Let_def abs_le_iff split: option.splits)

lemma content_final_score_bounds:
  assumes "ran (moodScores r) \<subseteq> {0..1}" and "ran (occasionScores r) \<subseteq> {0..1}"
    and "ran (timeScores r) \<subseteq> {0..1}"
  shows "0 \<le> content_final_score sk rs mood occasion cuisine_pref dp time np r
         \<and> content_final_score sk rs mood occasion cuisine_pref dp time np r \<le> 1"
proof -
  note m = label_score_bounds [OF assms(1), of "lower mood", folded calculate_mood_score_def]
  note oc = label_score_bounds [OF assms(2), of "lower occasion", folded calculate_occasion_score_def]
  note t = label_score_bounds [OF assms(3), of "lower time", folded calculate_time_score_def]
  note c = check_cuisine_match_bounds [of r cuisine_pref]
  note n = calculate_notes_score_bounds [of r np]
  note s = calculate_content_similarity_bounds [of sk rs mood occasion cuisine_pref dp r]
  from m oc t c n s show ?thesis
    unfolding content_final_score_def Let_def by simp
qed

text \<open>
  Claim C2. For a restaurant whose mood, occasion and time score tables hold values
  between 0 and 1, and for every preference set (mood, occasion, cuisine, dietary
  preference, time, optional notes), the final score
  \<open>0.30 * mood + 0.30 * occasion + 0.10 * time + 0.10 * cuisine + 0.10 * contentSimilarity +
  0.10 * notes\<close> lies between 0 and 1; this is the score of the restaurant in the list
  that \<^verbatim>\<open>recommend\<close> returns. The bound holds for any vectorizer, since a cosine
  similarity is at most 1.
\<close>

theorem content_score_in_unit_interval:
  assumes "ran (moodScores r) \<subseteq> {0..1}" and "ran (occasionScores r) \<subseteq> {0..1}"
    and "ran (timeScores r) \<subseteq> {0..1}"
  shows "content_final_score sk rs mood occasion cuisine_pref dp time
           (process_additional_notes additional_notes) r \<in> {0..1}
         \<and> (\<forall>x \<in> set (base_recommend sk rs mood occasion cuisine_pref dp time additional_notes).
               restaurant x = r \<longrightarrow>
                 score x = content_final_score sk rs mood occasion cuisine_pref dp time
                             (process_additional_notes additional_notes) r
                 \<and> score x \<in> {0..1})"
proof -
  have b: "content_final_score sk rs mood occasion cuisine_pref dp time
             (process_additional_notes additional_notes) r \<in> {0..1}"
    using content_final_score_bounds [OF assms] by simp
  have "score x = content_final_score sk rs mood occasion cuisine_pref dp time
                    (process_additional_notes additional_notes) (restaurant x)"
    if "x \<in> set (base_recommend sk rs mood occasion cuisine_pref dp time additional_notes)" for x
  proof -
    from that have "x \<in> set (scored_restaurants sk rs mood occasion cuisine_pref dp time
                               additional_notes)"
      unfolding base_recommend_def sort_desc_def by (auto dest: in_set_takeD)
    then show ?thesis
      unfolding scored_restaurants_def Let_def by (rule score_restaurants_score)
  qed
  with b show ?thesis by auto
qed

theorem content_score_in_unit_interval_witness:
  "ran (moodScores trattoria) \<subseteq> {0..1} \<and> ran (occasionScores trattoria) \<subseteq> {0..1}
   \<and> ran (timeScores trattoria) \<subseteq> {0..1}
   \<and> map score (base_recommend no_vectors [trattoria] ''happy'' ''celebration'' ''italian''
                   ''vegetarian'' ''dinner'' None) = [67 / 100]
   \<and> content_final_score no_vectors [trattoria] ''happy'' ''celebration'' ''italian''
        ''vegetarian'' ''dinner'' (process_additional_notes None) trattoria \<in> {0..1}"
proof -
  have h1: "ran (moodScores trattoria) \<subseteq> {0..1}"
    by (simp add: trattoria_def blank_restaurant_def)
  have h2: "ran (occasionScores trattoria) \<subseteq> {0..1}"
    by (simp add: trattoria_def blank_restaurant_def)
  have h3: "ran (timeScores trattoria) \<subseteq> {0..1}"
    by (simp add: trattoria_def blank_restaurant_def)
  have lw: "lower ''happy'' = ''happy''" "lower ''celebration'' = ''celebration''"
    "lower ''italian'' = ''italian''" "lower ''vegetarian'' = ''vegetarian''"
    "lower ''dinner'' = ''dinner''"
    by (simp_all add: lower_def lower_char_def)
  have v: "map score (base_recommend no_vectors [trattoria] ''happy'' ''celebration'' ''italian''
                   ''vegetarian'' ''dinner'' None) = [67 / 100]"
    by (simp add: base_recommend_def sort_desc_def scored_restaurants_def Let_def
          check_dietary_compatibility_def content_final_score_def calculate_mood_score_def
          calculate_occasion_score_def calculate_time_score_def check_cuisine_match_def
          calculate_notes_score_def process_additional_notes_def
          calculate_content_similarity_def no_vectors_def cosine_similarity_def l2_norm_def
          trattoria_def blank_restaurant_def lw)
  from content_score_in_unit_interval [OF h1 h2 h3] h1 h2 h3 v show ?thesis by blast
qed

section \<open>The notes score\<close>

lemma map_of_set_flag:
  "map_of (set_flag c k p) k' =
     (if c \<and> k' = k then map_option (\<lambda>v. 1) (map_of p k) else map_of p k')"
  by (induction p) (auto simp: set_flag_def)

lemma map_of_set_flag_None:
  "(map_of (set_flag c k p) k' = None) = (map_of p k' = None)"
  by (simp add: map_of_set_flag)

lemma flag_active_set_flag:
  "flag_active (set_flag c k p) k' =
     (if c \<and> k' = k \<and> map_of p k \<noteq> None then True else flag_active p k')"
  by (cases "map_of p k") (auto simp: flag_active_def map_of_set_flag)

lemma no_flag_active:
  "flag_active [(''spicy'', 0), (''quiet'', 0), (''romantic'', 0), (''family_friendly'', 0),
                (''healthy'', 0), (''fast'', 0), (''affordable'', 0), (''upscale'', 0)] k = False"
  by (simp add: flag_active_def)

lemma flags_of_notes:
  assumes "n \<noteq> []"
  shows "flag_active (process_additional_notes (Some n)) ''spicy''
           = any_in [''spicy'', ''hot'', ''heat'', ''fiery''] (lower n)"
    and "flag_active (process_additional_notes (Some n)) ''quiet''
           = any_in [''quiet'', ''peaceful'', ''calm'', ''serene''] (lower n)"
    and "flag_active (process_additional_notes (Some n)) ''romantic''
           = any_in [''romantic'', ''date'', ''intimate'', ''cozy''] (lower n)"
    and "flag_active (process_additional_notes (Some n)) ''family_friendly''
           = any_in [''family'', ''kids'', ''children''] (lower n)"
    and "flag_active (process_additional_notes (Some n)) ''healthy''
           = any_in [''healthy'', ''fresh'', ''light'', ''nutritious''] (lower n)"
    and "flag_active (process_additional_notes (Some n)) ''affordable''
           = any_in [''cheap'', ''affordable'', ''budget'', ''inexpensive''] (lower n)"
    and "flag_active (process_additional_notes (Some n)) ''upscale''
           = any_in [''fancy'', ''upscale'', ''elegant'', ''fine dining''] (lower n)"
  using assms
  by (simp_all add: process_additional_notes_def Let_def flag_active_set_flag
        map_of_set_flag_None no_flag_active)

lemma process_additional_notes_nonempty:
  "n \<noteq> [] \<Longrightarrow> process_additional_notes (Some n) \<noteq> []"
  by (simp add: process_additional_notes_def Let_def set_flag_def)

lemma notes_block_pair:
  "notes_block a m w (s, t) = (s + (if a \<and> m then w else 0), t + (if a then w else 0))"
  by (simp add: notes_block_def)

lemma calculate_notes_score_of_notes:
  assumes "n \<noteq> []"
  shows "calculate_notes_score r (process_additional_notes (Some n))
           = weight_ratio (intent_flags r (lower n))"
  unfolding calculate_notes_score_def Let_def
  by (simp add: process_additional_notes_nonempty [OF assms] flags_of_notes [OF assms]
        notes_block_pair weight_ratio_def intent_flags_def Let_def add.assoc
        split del: if_split cong: if_cong)

text \<open>
  Claim C4, as amended. For every restaurant and every notes text, the notes score is
  the matched weight divided by the total weight over the active flags among the
  seven that the scorer tests: \<open>spicy\<close> with weight 0.3, and \<open>quiet\<close>, \<open>romantic\<close>,
  \<open>family_friendly\<close>, \<open>healthy\<close>, \<open>affordable\<close>, \<open>upscale\<close> with weight 0.2 each. The
  score is 1 when there are no notes or none of these flags is active.
\<close>

theorem notes_score_weight_ratio:
  "calculate_notes_score r (process_additional_notes additional_notes) =
     (case additional_notes of
        None \<Rightarrow> 1
      | Some n \<Rightarrow> if n = [] then 1 else weight_ratio (intent_flags r (lower n)))"
proof (cases additional_notes)
  case None
  then show ?thesis by (simp add: process_additional_notes_def calculate_notes_score_def)
next
  case (Some n)
  then show ?thesis
    using calculate_notes_score_of_notes [of n r]
    by (cases "n = []") (simp_all add: process_additional_notes_def calculate_notes_score_def)
qed

lemma lower_spicy_quiet: "lower ''Spicy, quiet'' = ''spicy, quiet''"
  by (simp add: lower_def lower_char_def)

lemma flags_spicy_quiet:
  "intent_flags spicy_quiet_example ''spicy, quiet'' =
     [(True, True, 0.3), (True, False, 0.2), (False, False, 0.2), (False, False, 0.2),
      (False, False, 0.2), (False, False, 0.2), (False, False, 0.2)]"
  by (simp add: intent_flags_def spicy_quiet_example_def blank_restaurant_def any_in_def
        lower_def lower_char_def)

theorem notes_score_weight_ratio_witness:
  "calculate_notes_score spicy_quiet_example (process_additional_notes (Some ''Spicy, quiet''))
     = 3 / 5"
  using notes_score_weight_ratio [of spicy_quiet_example "Some ''Spicy, quiet''"]
  by (simp add: lower_spicy_quiet flags_spicy_quiet weight_ratio_def)

text \<open>
  Claim C4 as stated fails: with equal weights the restaurant below, which passes the
  test of \<open>spicy\<close> and fails the test of \<open>quiet\<close>, would score one half; the code gives
  it three fifths.
\<close>

theorem notes_score_equal_weights_counterexample:
  "calculate_notes_score spicy_quiet_example (process_additional_notes (Some ''Spicy, quiet''))
     \<noteq> weight_ratio (equal_weights (intent_flags spicy_quiet_example (lower ''Spicy, quiet'')))"
proof -
  have "calculate_notes_score spicy_quiet_example
          (process_additional_notes (Some ''Spicy, quiet'')) = 3 / 5"
    by (simp add: calculate_notes_score_of_notes lower_spicy_quiet flags_spicy_quiet
          weight_ratio_def)
  moreover have "weight_ratio (equal_weights (intent_flags spicy_quiet_example
                   (lower ''Spicy, quiet''))) = 1 / 2"
    by (simp add: lower_spicy_quiet flags_spicy_quiet weight_ratio_def equal_weights_def)
  ultimately show ?thesis by simp
qed

section \<open>Weight redistribution in the combine step\<close>

lemma source_weights_configured: "source_weights hs ha = configured_weights hs ha"
  by (simp add: source_weights_def configured_weights_def)

lemma total_weight_configured: "0 < total_weight (configured_weights hs ha)"
  by (simp add: total_weight_def configured_weights_def)

lemma adjusted_weights_redistributed:
  assumes "0 < total_weight w"
  shows "adjusted_weights w s
           = redistributed_weights w (collab_norm s) (search_norm s) (ai_norm s)"
proof -
  show ?thesis
    using assms
    unfolding adjusted_weights_def redistributed_weights_def Let_def total_weight_def
    by (cases "collab_norm s = 0"; cases "search_norm s = 0"; cases "ai_norm s = 0")
       (simp_all add: add.commute add.left_commute)
qed

lemma redistributed_weights_sum:
  assumes "0 < total_weight w"
  shows "total_weight (redistributed_weights w u q m) = 1"
proof -
  define t where "t = total_weight w"
  have t: "t \<noteq> 0" using assms by (simp add: t_def)
  have "total_weight (redistributed_weights w u q m)
          = (content_weight w + collab_weight w + search_weight w + ai_weight w) / t"
    unfolding redistributed_weights_def t_def [symmetric]
    by (cases "u = 0"; cases "q = 0"; cases "m = 0")
       (simp_all add: total_weight_def [of "\<lparr>content_weight = _, collab_weight = _,
           search_weight = _, ai_weight = _\<rparr>"] add_divide_distrib)
  also have "\<dots> = 1" using t by (simp add: t_def total_weight_def)
  finally show ?thesis .
qed

text \<open>The score dictionary: a new id is appended, a known id is updated in place.\<close>

lemma scores_of_update_scores:
  "scores_of (update_scores k f kvs) i = (if i = k then f (scores_of kvs i) else scores_of kvs i)"
  by (induction kvs) (auto simp: scores_of_def)

lemma keys_update_scores: "fst ` set (update_scores k f kvs) = insert k (fst ` set kvs)"
proof (induction kvs)
  case Nil
  show ?case by simp
next
  case (Cons p kvs)
  obtain k' v where "p = (k', v)" by (cases p)
  with Cons show ?case by (cases "k' = k") (simp_all add: insert_commute)
qed

lemma distinct_update_scores:
  "distinct (map fst kvs) \<Longrightarrow> distinct (map fst (update_scores k f kvs))"
proof (induction kvs)
  case Nil
  then show ?case by simp
next
  case (Cons p kvs)
  then show ?case
    using keys_update_scores [of k f kvs] by (cases p) auto
qed


lemma combine_invariant_add_result:
  assumes "combine_invariant acc"
  shows "combine_invariant (add_result r f acc)"
proof -
  from assms have d: "distinct (map fst (restaurant_scores acc))"
    and rd: "\<And>i. i \<in> fst ` set (restaurant_scores acc)
                 \<Longrightarrow> \<exists>r. restaurant_data acc i = Some r \<and> rid r = i"
    by (auto simp: combine_invariant_def)
  show ?thesis
    unfolding combine_invariant_def add_result_def
    using distinct_update_scores [OF d, of "rid r" f] rd
    by (auto simp: keys_update_scores)
qed

lemma fold_add_result:
  fixes g :: "'a \<Rightarrow> restaurant" and u :: "'a \<Rightarrow> source_scores \<Rightarrow> source_scores"
  defines "step \<equiv> (\<lambda>item. add_result (g item) (u item))"
  shows "combine_invariant acc \<Longrightarrow> combine_invariant (fold step items acc)"
    and "fst ` set (restaurant_scores (fold step items acc))
           = rid ` g ` set items \<union> fst ` set (restaurant_scores acc)"
    and "scores_of (restaurant_scores (fold step items acc)) i
           = fold (\<lambda>item s. if rid (g item) = i then u item s else s) items
               (scores_of (restaurant_scores acc) i)"
proof (induction items arbitrary: acc)
  case Nil
  { case 1 then show ?case by simp }
  { case 2 show ?case by simp }
  { case 3 show ?case by simp }
next
  case (Cons item items)
  { case 1
    then have "combine_invariant (step item acc)"
      unfolding step_def by (rule combine_invariant_add_result)
    then show ?case using Cons.IH(1) by simp }
  { case 2
    show ?case
      using Cons.IH(2) [of "step item acc"]
      by (auto simp: step_def add_result_def keys_update_scores) }
  { case 3
    show ?case
      using Cons.IH(3) [of "step item acc"]
      by (auto simp: step_def add_result_def scores_of_update_scores) }
qed

lemma fold_field_set:
  assumes "\<And>v s. get (upd v s) = v"
  shows "get (fold (\<lambda>item s. if k item = i then upd (v item) s else s) items s0)
           = (case map_of (rev (map (\<lambda>item. (k item, v item)) items)) i of
                None \<Rightarrow> get s0 | Some x \<Rightarrow> x)"
proof (induction items arbitrary: s0)
  case Nil
  show ?case by simp
next
  case (Cons item items)
  show ?case
    by (simp add: Cons.IH map_of_append map_add_def assms split: option.splits)
qed

lemma fold_field_kept:
  assumes "\<And>v s. get (upd v s) = get s"
  shows "get (fold (\<lambda>item s. if k item = i then upd (v item) s else s) items s0) = get s0"
  by (induction items arbitrary: s0) (simp_all add: assms)


lemma scores_of_empty: "scores_of [] i = zero_scores"
  by (simp add: scores_of_def)

lemma collect_scores_invariant:
  "combine_invariant (collect_scores cr cf sr ar)"
  unfolding collect_scores_def Let_def
  by (intro fold_add_result(1)) (simp add: combine_invariant_def)

lemma collect_scores_keys:
  "fst ` set (restaurant_scores (collect_scores cr cf sr ar))
     = rid ` (restaurant ` set cr \<union> cf_restaurant ` set cf \<union> sr_restaurant ` set sr
              \<union> ai_restaurant ` set ar)"
  unfolding collect_scores_def Let_def
  by (simp add: fold_add_result(2) image_Un Un_ac)

lemma collect_scores_entry:
  defines "acc \<equiv> collect_scores"
  shows "content_score (scores_of (restaurant_scores (acc cr cf sr ar)) i) = content_of cr i"
    and "collab_score (scores_of (restaurant_scores (acc cr cf sr ar)) i) = collab_of cf i"
    and "search_score (scores_of (restaurant_scores (acc cr cf sr ar)) i) = search_of sr i"
    and "ai_score (scores_of (restaurant_scores (acc cr cf sr ar)) i) = ai_of ar i"
proof -
  note set = fold_field_set [where upd = "\<lambda>v s. s\<lparr>content_score := v\<rparr>" and get = content_score]
    fold_field_set [where upd = "\<lambda>v s. s\<lparr>collab_score := v\<rparr>" and get = collab_score]
    fold_field_set [where upd = "\<lambda>v s. s\<lparr>search_score := v\<rparr>" and get = search_score]
    fold_field_set [where upd = "\<lambda>v s. s\<lparr>ai_score := v\<rparr>" and get = ai_score]
  note kept =
    fold_field_kept [where upd = "\<lambda>v s. s\<lparr>collab_score := v\<rparr>" and get = content_score]
    fold_field_kept [where upd = "\<lambda>v s. s\<lparr>search_score := v\<rparr>" and get = content_score]
    fold_field_kept [where upd = "\<lambda>v s. s\<lparr>ai_score := v\<rparr>" and get = content_score]
    fold_field_kept [where upd = "\<lambda>v s. s\<lparr>search_score := v\<rparr>" and get = collab_score]
    fold_field_kept [where upd = "\<lambda>v s. s\<lparr>ai_score := v\<rparr>" and get = collab_score]
    fold_field_kept [where upd = "\<lambda>v s. s\<lparr>ai_score := v\<rparr>" and get = search_score]
    fold_field_kept [where upd = "\<lambda>v s. s\<lparr>content_score := v\<rparr>" and get = collab_score]
    fold_field_kept [where upd = "\<lambda>v s. s\<lparr>content_score := v\<rparr>" and get = search_score]
    fold_field_kept [where upd = "\<lambda>v s. s\<lparr>content_score := v\<rparr>" and get = ai_score]
    fold_field_kept [where upd = "\<lambda>v s. s\<lparr>collab_score := v\<rparr>" and get = search_score]
    fold_field_kept [where upd = "\<lambda>v s. s\<lparr>collab_score := v\<rparr>" and get = ai_score]
    fold_field_kept [where upd = "\<lambda>v s. s\<lparr>search_score := v\<rparr>" and get = ai_score]
  show "content_score (scores_of (restaurant_scores (acc cr cf sr ar)) i) = content_of cr i"
    unfolding acc_def collect_scores_def Let_def fold_add_result(3)
    by (simp add: set kept scores_of_empty zero_scores_def content_of_def latest_def
          split: option.splits)
  show "collab_score (scores_of (restaurant_scores (acc cr cf sr ar)) i) = collab_of cf i"
    unfolding acc_def collect_scores_def Let_def fold_add_result(3)
    by (simp add: set kept scores_of_empty zero_scores_def collab_of_def latest_def
          split: option.splits)
  show "search_score (scores_of (restaurant_scores (acc cr cf sr ar)) i) = search_of sr i"
    unfolding acc_def collect_scores_def Let_def fold_add_result(3)
    by (simp add: set kept scores_of_empty zero_scores_def search_of_def latest_def
          split: option.splits)
  show "ai_score (scores_of (restaurant_scores (acc cr cf sr ar)) i) = ai_of ar i"
    unfolding acc_def collect_scores_def Let_def fold_add_result(3)
    by (simp add: set kept scores_of_empty zero_scores_def ai_of_def latest_def
          split: option.splits)
qed


lemma final_score_collect:
  "final_score (scores_of (restaurant_scores (collect_scores cr cf sr ar)) i) = 0"
  unfolding collect_scores_def Let_def fold_add_result(3)
  by (simp add: scores_of_empty zero_scores_def
        fold_field_kept [where upd = "\<lambda>v s. s\<lparr>content_score := v\<rparr>" and get = final_score]
        fold_field_kept [where upd = "\<lambda>v s. s\<lparr>collab_score := v\<rparr>" and get = final_score]
        fold_field_kept [where upd = "\<lambda>v s. s\<lparr>search_score := v\<rparr>" and get = final_score]
        fold_field_kept [where upd = "\<lambda>v s. s\<lparr>ai_score := v\<rparr>" and get = final_score])

lemma scores_of_member:
  assumes "distinct (map fst kvs)" and "(i, s) \<in> set kvs"
  shows "scores_of kvs i = s"
  using assms by (simp add: scores_of_def)

lemma combine_recommendations_entry:
  assumes "x \<in> set (combine_recommendations cr cf sr ar)"
  defines "i \<equiv> rid (fr_restaurant x)"
  defines "s \<equiv> scores_of (restaurant_scores (collect_scores cr cf sr ar)) i"
  shows "fr_content_score x = content_of cr i" and "fr_collab_score x = collab_of cf i"
    and "fr_search_score x = search_of sr i" and "fr_ai_score x = ai_of ar i"
    and "fr_score x = weighted_score (configured_weights (sr \<noteq> []) (ar \<noteq> [])) s"
    and "content_score s = content_of cr i" and "collab_score s = collab_of cf i"
    and "search_score s = search_of sr i" and "ai_score s = ai_of ar i"
proof -
  define acc where "acc = collect_scores cr cf sr ar"
  define w where "w = configured_weights (sr \<noteq> []) (ar \<noteq> [])"
  from assms(1) obtain entry where e: "entry \<in> set (restaurant_scores acc)"
    and x: "x = final_entry w (restaurant_data acc) entry"
    unfolding combine_recommendations_def Let_def sort_desc_def acc_def w_def
      source_weights_configured
    by auto
  obtain j t where entry: "entry = (j, t)" by (cases entry)
  have inv: "combine_invariant acc"
    unfolding acc_def by (rule collect_scores_invariant)
  from inv e entry obtain r where r: "restaurant_data acc j = Some r" "rid r = j"
    unfolding combine_invariant_def by force
  from inv e entry have t: "scores_of (restaurant_scores acc) j = t"
    unfolding combine_invariant_def by (simp add: scores_of_member)
  have i: "i = j"
    unfolding i_def x entry by (simp add: final_entry_def r)
  have s: "s = t"
    unfolding s_def i acc_def [symmetric] by (rule t)
  note c = collect_scores_entry [of cr cf sr ar i, folded acc_def s_def]
  show "content_score s = content_of cr i" by (rule c(1))
  show "collab_score s = collab_of cf i" by (rule c(2))
  show "search_score s = search_of sr i" by (rule c(3))
  show "ai_score s = ai_of ar i" by (rule c(4))
  show "fr_content_score x = content_of cr i"
    unfolding x entry final_entry_def using c(1) s by simp
  show "fr_collab_score x = collab_of cf i"
    unfolding x entry final_entry_def using c(2) s by simp
  show "fr_search_score x = search_of sr i"
    unfolding x entry final_entry_def using c(3) s by simp
  show "fr_ai_score x = ai_of ar i"
    unfolding x entry final_entry_def using c(4) s by simp
  show "fr_score x = weighted_score (configured_weights (sr \<noteq> []) (ar \<noteq> [])) s"
    unfolding x entry final_entry_def w_def using s by simp
qed

lemma combine_recommendations_ids:
  "mset (map (rid \<circ> fr_restaurant) (combine_recommendations cr cf sr ar))
     = mset (map fst (restaurant_scores (collect_scores cr cf sr ar)))"
proof -
  define acc where "acc = collect_scores cr cf sr ar"
  define w where "w = source_weights (sr \<noteq> []) (ar \<noteq> [])"
  have inv: "combine_invariant acc"
    unfolding acc_def by (rule collect_scores_invariant)
  have "rid (fr_restaurant (final_entry w (restaurant_data acc) entry)) = fst entry"
    if "entry \<in> set (restaurant_scores acc)" for entry
    using inv that unfolding combine_invariant_def final_entry_def by force
  then have "map (rid \<circ> fr_restaurant) (map (final_entry w (restaurant_data acc))
                 (restaurant_scores acc)) = map fst (restaurant_scores acc)"
    by simp
  then have "mset (map (rid \<circ> fr_restaurant) (map (final_entry w (restaurant_data acc))
                 (restaurant_scores acc))) = mset (map fst (restaurant_scores acc))"
    by (simp only:)
  then have "mset (map (rid \<circ> fr_restaurant)
                 (sort_desc fr_score (map (final_entry w (restaurant_data acc))
                    (restaurant_scores acc)))) = mset (map fst (restaurant_scores acc))"
    unfolding sort_desc_def by (simp only: mset_map mset_sort)
  then show ?thesis
    unfolding combine_recommendations_def Let_def acc_def w_def .
qed


lemma content_and_search_value:
  "content_and_search =
     [\<lparr>fr_restaurant = trattoria, fr_score = 103 / 160, fr_content_score = 67 / 100,
       fr_collab_score = 0, fr_search_score = 3 / 5, fr_ai_score = 0\<rparr>]"
  by (simp add: content_and_search_def combine_recommendations_def collect_scores_def
        add_result_def Let_def sort_desc_def final_entry_def weighted_score_def
        adjusted_weights_def content_norm_def collab_norm_def search_norm_def ai_norm_def
        source_weights_def zero_scores_def trattoria_def blank_restaurant_def)

text \<open>
  Claim C1, with the weights that the code configures. The combined list has one entry
  for every restaurant id of the four result lists. For every entry: its four
  sub-scores are those that the lists give the restaurant; the weights are the
  configured ones with the weight of each source whose normalized score
  (collaborative, search or ai) is zero moved onto the content weight, divided by the
  sum of the configured weights, and they sum to 1; the final score is the sum of the
  normalized sub-scores times these weights. In particular, when the collaborative
  and the ai score are both zero, the final score is the blend of the content and the
  search score alone, the two weights sum to 1, and the content weight holds the
  configured collaborative and ai weight.
\<close>

theorem combine_weight_redistribution:
  "rid ` fr_restaurant ` set (combine_recommendations cr cf sr ar)
     = rid ` (restaurant ` set cr \<union> cf_restaurant ` set cf \<union> sr_restaurant ` set sr
              \<union> ai_restaurant ` set ar)
   \<and> distinct (map (rid \<circ> fr_restaurant) (combine_recommendations cr cf sr ar))
   \<and> (\<forall>x \<in> set (combine_recommendations cr cf sr ar).
         let i = rid (fr_restaurant x);
             w = configured_weights (sr \<noteq> []) (ar \<noteq> []);
             content_n = min 1 (content_of cr i);
             collab_n = (if collab_of cf i > 0 then min 1 (collab_of cf i / 5) else 0);
             search_n = min 1 (search_of sr i);
             ai_n = min 1 (ai_of ar i);
             a = redistributed_weights w collab_n search_n ai_n
         in fr_content_score x = content_of cr i \<and> fr_collab_score x = collab_of cf i
            \<and> fr_search_score x = search_of sr i \<and> fr_ai_score x = ai_of ar i
            \<and> content_weight a + collab_weight a + search_weight a + ai_weight a = 1
            \<and> fr_score x = content_n * content_weight a + collab_n * collab_weight a
                            + search_n * search_weight a + ai_n * ai_weight a
            \<and> (collab_n = 0 \<and> ai_n = 0 \<longrightarrow>
                 fr_score x = content_n * content_weight a + search_n * search_weight a
                 \<and> content_weight a + search_weight a = 1
                 \<and> content_weight a =
                     (content_weight w + collab_weight w + ai_weight w
                      + (if search_n = 0 then search_weight w else 0)) / total_weight w))"
proof (intro conjI ballI)
  have m: "mset (map (rid \<circ> fr_restaurant) (combine_recommendations cr cf sr ar))
             = mset (map fst (restaurant_scores (collect_scores cr cf sr ar)))"
    by (rule combine_recommendations_ids)
  from mset_eq_setD [OF m]
  show "rid ` fr_restaurant ` set (combine_recommendations cr cf sr ar)
     = rid ` (restaurant ` set cr \<union> cf_restaurant ` set cf \<union> sr_restaurant ` set sr
              \<union> ai_restaurant ` set ar)"
    by (simp add: collect_scores_keys image_image)
  have "distinct (map fst (restaurant_scores (collect_scores cr cf sr ar)))"
    using collect_scores_invariant [of cr cf sr ar] by (simp add: combine_invariant_def)
  with mset_eq_imp_distinct_iff [OF m]
  show "distinct (map (rid \<circ> fr_restaurant) (combine_recommendations cr cf sr ar))"
    by simp
next
  fix x
  assume x: "x \<in> set (combine_recommendations cr cf sr ar)"
  define i where "i = rid (fr_restaurant x)"
  define s where "s = scores_of (restaurant_scores (collect_scores cr cf sr ar)) i"
  define w where "w = configured_weights (sr \<noteq> []) (ar \<noteq> [])"
  define content_n where "content_n = min 1 (content_of cr i)"
  define collab_n where "collab_n = (if collab_of cf i > 0 then min 1 (collab_of cf i / 5) else 0)"
  define search_n where "search_n = min 1 (search_of sr i)"
  define ai_n where "ai_n = min 1 (ai_of ar i)"
  define a where "a = redistributed_weights w collab_n search_n ai_n"
  note e = combine_recommendations_entry(1-5) [OF x, folded i_def, folded s_def w_def]
  note f = combine_recommendations_entry(6-9) [OF x, folded i_def, folded s_def]
  have n: "content_norm s = content_n" "collab_norm s = collab_n" "search_norm s = search_n"
    "ai_norm s = ai_n"
    by (simp_all add: content_norm_def collab_norm_def search_norm_def ai_norm_def f
          content_n_def collab_n_def search_n_def ai_n_def)
  have pos: "0 < total_weight w"
    unfolding w_def by (rule total_weight_configured)
  have adj: "adjusted_weights w s = a"
    unfolding a_def adjusted_weights_redistributed [OF pos] n ..
  have one: "content_weight a + collab_weight a + search_weight a + ai_weight a = 1"
    using redistributed_weights_sum [OF pos, of collab_n search_n ai_n]
    by (simp add: a_def total_weight_def)
  have sc: "fr_score x = content_n * content_weight a + collab_n * collab_weight a
                         + search_n * search_weight a + ai_n * ai_weight a"
    unfolding e(5) weighted_score_def Let_def adj n ..
  have zero: "collab_weight a = 0" "ai_weight a = 0"
             "content_weight a =
                  (content_weight w + collab_weight w + ai_weight w
                   + (if search_n = 0 then search_weight w else 0)) / total_weight w"
    if "collab_n = 0" "ai_n = 0"
    using that by (simp_all add: a_def redistributed_weights_def)
  have special:
    "fr_score x = content_n * content_weight a + search_n * search_weight a
     \<and> content_weight a + search_weight a = 1
     \<and> content_weight a =
           (content_weight w + collab_weight w + ai_weight w
            + (if search_n = 0 then search_weight w else 0)) / total_weight w"
    if "collab_n = 0" "ai_n = 0"
    using sc one zero [OF that] that by simp
  from e(1-4) one sc special
  have "fr_content_score x = content_of cr i \<and> fr_collab_score x = collab_of cf i
            \<and> fr_search_score x = search_of sr i \<and> fr_ai_score x = ai_of ar i
            \<and> content_weight a + collab_weight a + search_weight a + ai_weight a = 1
            \<and> fr_score x = content_n * content_weight a + collab_n * collab_weight a
                            + search_n * search_weight a + ai_n * ai_weight a
            \<and> (collab_n = 0 \<and> ai_n = 0 \<longrightarrow>
                 fr_score x = content_n * content_weight a + search_n * search_weight a
                 \<and> content_weight a + search_weight a = 1
                 \<and> content_weight a =
                     (content_weight w + collab_weight w + ai_weight w
                      + (if search_n = 0 then search_weight w else 0)) / total_weight w)"
    by blast
  then show "let i = rid (fr_restaurant x);
             w = configured_weights (sr \<noteq> []) (ar \<noteq> []);
             content_n = min 1 (content_of cr i);
             collab_n = (if collab_of cf i > 0 then min 1 (collab_of cf i / 5) else 0);
             search_n = min 1 (search_of sr i);
             ai_n = min 1 (ai_of ar i);
             a = redistributed_weights w collab_n search_n ai_n
         in fr_content_score x = content_of cr i \<and> fr_collab_score x = collab_of cf i
            \<and> fr_search_score x = search_of sr i \<and> fr_ai_score x = ai_of ar i
            \<and> content_weight a + collab_weight a + search_weight a + ai_weight a = 1
            \<and> fr_score x = content_n * content_weight a + collab_n * collab_weight a
                            + search_n * search_weight a + ai_n * ai_weight a
            \<and> (collab_n = 0 \<and> ai_n = 0 \<longrightarrow>
                 fr_score x = content_n * content_weight a + search_n * search_weight a
                 \<and> content_weight a + search_weight a = 1
                 \<and> content_weight a =
                     (content_weight w + collab_weight w + ai_weight w
                      + (if search_n = 0 then search_weight w else 0)) / total_weight w)"
    unfolding Let_def i_def [symmetric] w_def [symmetric] content_n_def [symmetric]
      collab_n_def [symmetric] search_n_def [symmetric] ai_n_def [symmetric] a_def [symmetric] .
qed


theorem combine_weight_redistribution_witness:
  "map (\<lambda>x. (rid (fr_restaurant x), fr_content_score x, fr_collab_score x, fr_search_score x,
              fr_ai_score x)) content_and_search = [(1, 67 / 100, 0, 3 / 5, 0)]
   \<and> redistributed_weights (configured_weights True False) 0 (3 / 5) 0
       = \<lparr>content_weight = 5 / 8, collab_weight = 0, search_weight = 3 / 8, ai_weight = 0\<rparr>
   \<and> map fr_score content_and_search = [67 / 100 * (5 / 8) + 3 / 5 * (3 / 8)]"
proof -
  define x where "x = \<lparr>fr_restaurant = trattoria, fr_score = 103 / 160,
       fr_content_score = 67 / 100, fr_collab_score = 0, fr_search_score = 3 / 5,
       fr_ai_score = 0\<rparr>"
  have v: "content_and_search = [x]"
    unfolding x_def by (rule content_and_search_value)
  have i: "rid (fr_restaurant x) = 1"
    by (simp add: x_def trattoria_def blank_restaurant_def)
  have w: "redistributed_weights (configured_weights True False) 0 (3 / 5) 0
       = \<lparr>content_weight = 5 / 8, collab_weight = 0, search_weight = 3 / 8, ai_weight = 0\<rparr>"
    by (simp add: redistributed_weights_def configured_weights_def total_weight_def)
  have "x \<in> set (combine_recommendations [\<lparr>restaurant = trattoria, score = 67 / 100\<rparr>] []
       [\<lparr>sr_restaurant = trattoria, sr_search_score = 1 / 2, sr_semantic_score = 1 / 2,
         sr_keyword_score = 1 / 2\<rparr>] [])"
    using v by (simp add: content_and_search_def)
  with combine_weight_redistribution [of "[\<lparr>restaurant = trattoria, score = 67 / 100\<rparr>]" "[]"
       "[\<lparr>sr_restaurant = trattoria, sr_search_score = 1 / 2, sr_semantic_score = 1 / 2,
         sr_keyword_score = 1 / 2\<rparr>]" "[]"]
  have "fr_score x = 67 / 100 * (5 / 8) + 3 / 5 * (3 / 8)"
    and "fr_content_score x = 67 / 100" and "fr_collab_score x = 0"
    and "fr_search_score x = 3 / 5" and "fr_ai_score x = 0"
    by (simp_all add: Let_def i w content_of_def collab_of_def search_of_def ai_of_def
          latest_def trattoria_def blank_restaurant_def)
  then show ?thesis
    by (simp add: v i w)
qed

text \<open>
  Claim C1 as stated fails where one of the search and ai result lists is empty and the
  other is not. With the weights of the specification, a restaurant with content score
  0.67 and stored search score 0.6 and no other score would get the weights 0.7 and
  0.3 and the score 0.649; the code, which has dropped the ai weight before the
  redistribution, gives it the weights 5/8 and 3/8 and the score 103/160.
\<close>

theorem stated_weights_counterexample:
  "map (\<lambda>x. (rid (fr_restaurant x), fr_content_score x, fr_collab_score x, fr_search_score x,
              fr_ai_score x)) content_and_search = [(1, 67 / 100, 0, 3 / 5, 0)]
   \<and> map fr_score content_and_search = [103 / 160]
   \<and> redistributed_weights (stated_weights True False) 0 (3 / 5) 0
       = \<lparr>content_weight = 7 / 10, collab_weight = 0, search_weight = 3 / 10, ai_weight = 0\<rparr>
   \<and> stated_blend True False (67 / 100) 0 (3 / 5) 0 = 649 / 1000
   \<and> map fr_score content_and_search \<noteq> [stated_blend True False (67 / 100) 0 (3 / 5) 0]"
  by (simp add: content_and_search_value stated_blend_def redistributed_weights_def
        stated_weights_def total_weight_def trattoria_def blank_restaurant_def)

section \<open>The similarity matrix\<close>

lemma dot_commute: "dot u v = dot v u"
proof (induction u arbitrary: v)
  case Nil
  then show ?case by (simp add: dot_def)
next
  case (Cons x u)
  then show ?case by (cases v) (simp_all add: dot_def)
qed

lemma cosine_similarity_commute: "cosine_similarity u v = cosine_similarity v u"
  by (auto simp: cosine_similarity_def dot_commute [of u v] mult.commute)

lemma map_of_keyed:
  assumes "inj_on g A" and "set ks \<subseteq> A" and "i \<in> A"
  shows "map_of (map (\<lambda>k. (g k, f k)) ks) (g i) = (if i \<in> set ks then Some (f i) else None)"
  using assms by (induction ks) (auto simp: inj_on_def)

lemma map_of_keyed_None:
  assumes "u \<notin> g ` set ks"
  shows "map_of (map (\<lambda>k. (g k, f k)) ks) u = None"
  using assms by (induction ks) auto

lemma inj_on_nth_distinct: "distinct users \<Longrightarrow> inj_on ((!) users) {..<length users}"
  by (auto simp: inj_on_def nth_eq_iff_index_eq)

lemma similarity_rows_index:
  assumes "distinct users" and "i < length users" and "j < length users"
  shows "similarity (similarity_rows users vs) (users ! i) (users ! j)
           = (if i = j then None else Some (cosine_similarity (vs ! i) (vs ! j)))"
proof -
  note inj = inj_on_nth_distinct [OF assms(1)]
  have sub: "set [0..<length users] \<subseteq> {..<length users}"
    "set (filter (\<lambda>j. i \<noteq> j) [0..<length users]) \<subseteq> {..<length users}"
    by auto
  have mem: "i \<in> {..<length users}" "j \<in> {..<length users}"
    using assms by auto
  have row: "map_of (similarity_rows users vs) (users ! i)
               = Some (map (\<lambda>j. (users ! j, cosine_similarity (vs ! i) (vs ! j)))
                        (filter (\<lambda>j. i \<noteq> j) [0..<length users]))"
    unfolding similarity_rows_def
    using map_of_keyed [OF inj sub(1) mem(1),
        where f = "\<lambda>i. map (\<lambda>j. (users ! j, cosine_similarity (vs ! i) (vs ! j)))
                       (filter (\<lambda>j. i \<noteq> j) [0..<length users])"] assms(2)
    by simp
  have "map_of (map (\<lambda>j. (users ! j, cosine_similarity (vs ! i) (vs ! j)))
                 (filter (\<lambda>j. i \<noteq> j) [0..<length users])) (users ! j)
          = (if i = j then None else Some (cosine_similarity (vs ! i) (vs ! j)))"
    using map_of_keyed [OF inj sub(2) mem(2),
        where f = "\<lambda>j. cosine_similarity (vs ! i) (vs ! j)"] assms(3)
    by auto
  with row show ?thesis by (simp add: similarity_def)
qed

lemma similarity_rows_unknown:
  assumes "u \<notin> set users"
  shows "similarity (similarity_rows users vs) u u' = None"
    and "similarity (similarity_rows users vs) u' u = None"
proof -
  have "u \<notin> (!) users ` set [0..<length users]"
    using assms by (auto simp: in_set_conv_nth)
  then show "similarity (similarity_rows users vs) u u' = None"
    unfolding similarity_rows_def similarity_def by (simp add: map_of_keyed_None)
  show "similarity (similarity_rows users vs) u' u = None"
  proof (cases "map_of (similarity_rows users vs) u'")
    case None
    then show ?thesis by (simp add: similarity_def)
  next
    case (Some row)
    then have "(u', row) \<in> set (similarity_rows users vs)" by (rule map_of_SomeD)
    then obtain i where "row = map (\<lambda>j. (users ! j, cosine_similarity (vs ! i) (vs ! j)))
                                  (filter (\<lambda>j. i \<noteq> j) [0..<length users])"
      unfolding similarity_rows_def by auto
    moreover have "u \<notin> (!) users ` set (filter (\<lambda>j. i \<noteq> j) [0..<length users])"
      using assms by (auto simp: in_set_conv_nth)
    ultimately have "map_of row u = None" by (simp add: map_of_keyed_None)
    with Some show ?thesis by (simp add: similarity_def)
  qed
qed

lemma similarity_rows_symmetric:
  assumes "distinct users"
  shows "similarity (similarity_rows users vs) u1 u2 = similarity (similarity_rows users vs) u2 u1"
proof (cases "u1 \<in> set users \<and> u2 \<in> set users")
  case True
  then obtain i j where "i < length users" "users ! i = u1" "j < length users" "users ! j = u2"
    by (auto simp: in_set_conv_nth)
  then show ?thesis
    using similarity_rows_index [OF assms, of i j vs] similarity_rows_index [OF assms, of j i vs]
    by (auto simp: cosine_similarity_commute)
next
  case False
  then show ?thesis
    using similarity_rows_unknown [of u1 users vs u2] similarity_rows_unknown [of u2 users vs u1]
    by auto
qed

lemma similarity_rows_irreflexive:
  assumes "distinct users"
  shows "similarity (similarity_rows users vs) u u = None"
proof (cases "u \<in> set users")
  case True
  then obtain i where "i < length users" "users ! i = u" by (auto simp: in_set_conv_nth)
  then show ?thesis using similarity_rows_index [OF assms, of i i vs] by simp
next
  case False
  then show ?thesis by (rule similarity_rows_unknown)
qed

lemma similarity_Nil: "similarity [] u1 u2 = None"
  by (simp add: similarity_def)

lemma user_ids_fold:
  "distinct (user_ids acc) \<Longrightarrow> distinct (user_ids (fold record_interaction events acc))"
  by (induction events arbitrary: acc) (auto simp: record_interaction_def)

lemma user_ids_fold_set:
  "set (user_ids (fold record_interaction events acc))
     = set (user_ids acc) \<union> {the (userId i) | i. i \<in> set events \<and> valid_interaction i}"
  by (induction events arbitrary: acc) (auto simp: record_interaction_def valid_interaction_def)

lemma distinct_user_ids: "distinct (user_ids (collect_interactions events))"
  unfolding collect_interactions_def by (rule user_ids_fold) simp

lemma set_user_ids:
  "set (user_ids (collect_interactions events))
     = {the (userId i) | i. i \<in> set events \<and> valid_interaction i}"
  unfolding collect_interactions_def by (simp add: user_ids_fold_set)

lemma build_similarity_matrix_cases:
  "build_similarity_matrix events = []
   \<or> (build_similarity_matrix events
        = similarity_rows (sort (user_ids (collect_interactions events)))
            (map (\<lambda>u. map (\<lambda>r. case user_restaurant_matrix (collect_interactions events) (u, r) of
                                   Some s \<Rightarrow> s | None \<Rightarrow> 0)
                         (sort (restaurant_ids (collect_interactions events))))
               (sort (user_ids (collect_interactions events))))
      \<and> 1 < length (user_ids (collect_interactions events)))"
  by (simp add: build_similarity_matrix_def Let_def)

lemma build_similarity_matrix_symmetric:
  "similarity (build_similarity_matrix events) u1 u2
     = similarity (build_similarity_matrix events) u2 u1"
  using build_similarity_matrix_cases [of events] distinct_user_ids [of events]
  by (auto simp: similarity_Nil intro!: similarity_rows_symmetric)

lemma build_similarity_matrix_irreflexive:
  "similarity (build_similarity_matrix events) u u = None"
  using build_similarity_matrix_cases [of events] distinct_user_ids [of events]
  by (auto simp: similarity_Nil intro!: similarity_rows_irreflexive)

lemma two_distinct_users:
  assumes "build_similarity_matrix events \<noteq> []"
  shows "\<exists>i \<in> set events. \<exists>j \<in> set events.
           valid_interaction i \<and> valid_interaction j \<and> userId i \<noteq> userId j"
proof -
  from assms build_similarity_matrix_cases [of events]
  have len: "1 < length (user_ids (collect_interactions events))" by auto
  then obtain a b us where us: "user_ids (collect_interactions events) = a # b # us"
    by (cases "user_ids (collect_interactions events)"; cases "tl (user_ids (collect_interactions events))") auto
  with distinct_user_ids [of events] have "a \<noteq> b" by auto
  from us have "a \<in> set (user_ids (collect_interactions events))"
    "b \<in> set (user_ids (collect_interactions events))" by auto
  then obtain i j where ij: "i \<in> set events" "valid_interaction i" "a = the (userId i)"
    "j \<in> set events" "valid_interaction j" "b = the (userId j)"
    unfolding set_user_ids by auto
  with \<open>a \<noteq> b\<close> have "userId i \<noteq> userId j" by auto
  with ij show ?thesis by blast
qed

lemma reachable_matrix:
  "reachable st \<Longrightarrow> user_similarity_matrix st = build_similarity_matrix (user_interactions st)"
  by (induction rule: reachable.induct) (simp_all add: collab_init_def add_interaction_def Let_def)

text \<open>
  Claim C6. In every state the filter reaches (built from a stored log, then after
  each \<^verbatim>\<open>add_interaction\<close>), the stored similarity of \<open>u1\<close> to \<open>u2\<close> is that of \<open>u2\<close> to
  \<open>u1\<close> (both absent, or both present and equal), no user has a similarity to itself,
  and the matrix is not empty only if the log holds interactions that count of two
  different users.
\<close>

theorem similarity_matrix_invariant:
  assumes "reachable st"
  shows "(\<forall>u1 u2. similarity (user_similarity_matrix st) u1 u2
                    = similarity (user_similarity_matrix st) u2 u1)
         \<and> (\<forall>u. similarity (user_similarity_matrix st) u u = None)
         \<and> (user_similarity_matrix st \<noteq> [] \<longrightarrow>
              (\<exists>i \<in> set (user_interactions st). \<exists>j \<in> set (user_interactions st).
                 valid_interaction i \<and> valid_interaction j \<and> userId i \<noteq> userId j))"
  using reachable_matrix [OF assms] build_similarity_matrix_symmetric
    build_similarity_matrix_irreflexive two_distinct_users
  by auto

lemma scenario_state_log: "user_interactions scenario_state = scenario_log"
  by (simp add: scenario_state_def add_interaction_def collab_init_def Let_def scenario_log_def
        rated_def)

lemma scenario_collect:
  "user_ids (collect_interactions scenario_log) = [''b'', ''a'']"
  "restaurant_ids (collect_interactions scenario_log) = [20, 10]"
  "user_restaurant_matrix (collect_interactions scenario_log)
     = [(''a'', 10) \<mapsto> 10, (''b'', 10) \<mapsto> 10, (''b'', 20) \<mapsto> 8]"
  by (simp_all add: collect_interactions_def scenario_log_def rated_def record_interaction_def
        valid_interaction_def truthy_user_def truthy_restaurant_def interaction_score_def)

lemma scenario_matrix:
  "build_similarity_matrix scenario_log
     = [(''a'', [(''b'', 10 / sqrt 164)]), (''b'', [(''a'', 10 / sqrt 164)])]"
proof -
  have ne: "scenario_log \<noteq> []" by (simp add: scenario_log_def)
  have c: "cosine_similarity [10, 0] [10, 8] = 10 / sqrt 164"
    "cosine_similarity [10, 8] [10, 0] = 10 / sqrt 164"
    by (simp_all add: cosine_similarity_def l2_norm_def dot_def)
  show ?thesis
    by (simp add: build_similarity_matrix_def ne scenario_collect Let_def similarity_rows_def c)
qed

lemma scenario_state_reachable: "reachable scenario_state"
  unfolding scenario_state_def by (intro reachable.intros)

lemma scenario_state_matrix:
  "user_similarity_matrix scenario_state
     = [(''a'', [(''b'', 10 / sqrt 164)]), (''b'', [(''a'', 10 / sqrt 164)])]"
  using reachable_matrix [OF scenario_state_reachable]
  by (simp add: scenario_state_log scenario_matrix)

theorem similarity_matrix_invariant_witness:
  "reachable scenario_state
   \<and> similarity (user_similarity_matrix scenario_state) ''a'' ''b'' = Some (10 / sqrt 164)
   \<and> similarity (user_similarity_matrix scenario_state) ''b'' ''a'' = Some (10 / sqrt 164)
   \<and> similarity (user_similarity_matrix scenario_state) ''a'' ''a'' = None
   \<and> user_similarity_matrix scenario_state \<noteq> []
   \<and> userId (user_interactions scenario_state ! 0) \<noteq> userId (user_interactions scenario_state ! 1)"
  using similarity_matrix_invariant [OF scenario_state_reachable]
  by (simp add: scenario_state_reachable scenario_state_matrix similarity_def scenario_state_log
        scenario_log_def rated_def)

lemma fold_record_skip:
  assumes "\<not> valid_interaction i"
  shows "fold record_interaction (xs @ i # ys) acc = fold record_interaction (xs @ ys) acc"
  using assms by (simp add: record_interaction_def)

lemma fold_scan_skip:
  assumes "\<not> valid_interaction i"
  shows "fold scan_interaction (xs @ i # ys) acc = fold scan_interaction (xs @ ys) acc"
  using assms by (simp add: scan_interaction_def)

lemma collect_interactions_Nil:
  "user_ids (collect_interactions []) = []"
  by (simp add: collect_interactions_def)

lemma build_similarity_matrix_skip:
  assumes "\<not> valid_interaction i"
  shows "build_similarity_matrix (xs @ i # ys) = build_similarity_matrix (xs @ ys)"
proof -
  have c: "collect_interactions (xs @ i # ys) = collect_interactions (xs @ ys)"
    unfolding collect_interactions_def by (rule fold_record_skip [OF assms])
  show ?thesis
  proof (cases "xs @ ys = []")
    case True
    have "user_ids (collect_interactions (xs @ i # ys)) = user_ids (collect_interactions [])"
      by (simp only: c True)
    then have "user_ids (collect_interactions (xs @ i # ys)) = []"
      by (simp only: collect_interactions_Nil)
    then have "build_similarity_matrix (xs @ i # ys) = []"
      by (simp add: build_similarity_matrix_def Let_def)
    moreover have "build_similarity_matrix (xs @ ys) = []"
      by (simp only: True) (simp add: build_similarity_matrix_def)
    ultimately show ?thesis by simp
  next
    case False
    have ne: "xs @ i # ys \<noteq> []" by simp
    show ?thesis
      unfolding build_similarity_matrix_def c by (simp only: ne False if_False)
  qed
qed

text \<open>
  Claim C10. An interaction whose user id or restaurant id is falsy (absent, the empty
  string, the number 0) is skipped by the rebuild of the similarity matrix and by the
  scan of the recommendations: with it at any place of the log, the matrix and the
  collaborative recommendations are the same as without it.
\<close>

theorem falsy_interaction_ignored:
  assumes "\<not> truthy_user (userId i) \<or> \<not> truthy_restaurant (restaurantId i)"
  shows "build_similarity_matrix (xs @ i # ys) = build_similarity_matrix (xs @ ys)
         \<and> get_collaborative_recommendations walk (collab_init (xs @ i # ys)) u rs k
             = get_collaborative_recommendations walk (collab_init (xs @ ys)) u rs k"
proof -
  from assms have inv: "\<not> valid_interaction i" by (auto simp: valid_interaction_def)
  have s: "scan_interactions (xs @ i # ys) = scan_interactions (xs @ ys)"
    unfolding scan_interactions_def by (rule fold_scan_skip [OF inv])
  note m = build_similarity_matrix_skip [OF inv, of xs ys]
  have "get_collaborative_recommendations walk (collab_init (xs @ i # ys)) u rs k
          = get_collaborative_recommendations walk (collab_init (xs @ ys)) u rs k"
    by (simp only: get_collaborative_recommendations_def collab_init_def
          collab_state.select_convs m s)
  with m show ?thesis by simp
qed

theorem falsy_interaction_ignored_witness:
  "\<not> truthy_restaurant (restaurantId (rated ''c'' 0 5))
   \<and> \<not> truthy_user (userId (rated [] 30 5))
   \<and> build_similarity_matrix (scenario_log @ [rated ''c'' 0 5])
       = build_similarity_matrix scenario_log
   \<and> build_similarity_matrix (rated [] 30 5 # scenario_log)
       = build_similarity_matrix scenario_log
   \<and> get_collaborative_recommendations residue_order
         (collab_init (scenario_log @ [rated ''c'' 0 5])) ''a'' scenario_catalog 9
       = get_collaborative_recommendations residue_order (collab_init scenario_log) ''a''
           scenario_catalog 9"
  using falsy_interaction_ignored [where i = "rated ''c'' 0 5" and xs = scenario_log
      and ys = "[]" and walk = residue_order and u = "''a''" and rs = scenario_catalog and k = 9]
    falsy_interaction_ignored [where i = "rated [] 30 5" and xs = "[]" and ys = scenario_log
      and walk = residue_order and u = "''a''" and rs = scenario_catalog and k = 9]
  by (simp add: rated_def truthy_user_def truthy_restaurant_def)

section \<open>Collaborative recommendations\<close>

lemma slice_to_take: "\<exists>n. slice_to k xs = take n xs"
  by (auto simp: slice_to_def)

lemma length_slice_to: "0 \<le> k \<Longrightarrow> length (slice_to k xs) = min (nat k) (length xs)"
  by (simp add: slice_to_def min.commute)

lemma sorted_wrt_sort_desc: "sorted_wrt (\<lambda>x y. f y \<le> f x) (sort_desc f xs)"
proof -
  have "sorted (map (\<lambda>x. - f x) (sort_key (\<lambda>x. - f x) xs))" by (rule sorted_sort_key)
  then show ?thesis by (simp add: sort_desc_def sorted_map)
qed

lemma set_sort_desc: "set (sort_desc f xs) = set xs"
  by (simp add: sort_desc_def)

lemma mset_sort_desc: "mset (sort_desc f xs) = mset xs"
  by (simp add: sort_desc_def)

lemma interacted_iff:
  "interacted events u r
     = (\<exists>i \<in> set events. valid_interaction i \<and> userId i = Some u \<and> restaurantId i = Some r)"
  by (simp add: interacted_def list_ex_iff)

lemma valid_interaction_the:
  "valid_interaction i \<Longrightarrow> userId i = Some (the (userId i)) \<and> restaurantId i = Some (the (restaurantId i))
     \<and> the (userId i) \<noteq> [] \<and> the (restaurantId i) \<noteq> 0"
  by (auto simp: valid_interaction_def truthy_user_def truthy_restaurant_def split: option.splits)

lemma scan_uri_set:
  "set (user_restaurant_interactions (fold scan_interaction events acc) v)
     = set (user_restaurant_interactions acc v) \<union> {r. interacted events v r}"
proof (induction events arbitrary: acc)
  case Nil
  then show ?case by (simp add: interacted_iff)
next
  case (Cons i events)
  show ?case
  proof (cases "valid_interaction i")
    case False
    then show ?thesis using Cons.IH [of acc]
      by (auto simp: scan_interaction_def interacted_iff)
  next
    case True
    note t = valid_interaction_the [OF True]
    show ?thesis
      using True t Cons.IH [of "scan_interaction i acc"]
      by (auto simp: scan_interaction_def Let_def interacted_iff)
  qed
qed

lemma scan_interaction_distinct:
  "distinct (user_restaurant_interactions acc v)
   \<Longrightarrow> distinct (user_restaurant_interactions (scan_interaction i acc) v)"
  by (auto simp: scan_interaction_def Let_def)

lemma scan_uri_distinct:
  "distinct (user_restaurant_interactions acc v)
   \<Longrightarrow> distinct (user_restaurant_interactions (fold scan_interaction events acc) v)"
  by (induction events arbitrary: acc) (simp_all add: scan_interaction_distinct)

lemma uri_scan_interactions:
  "set (user_restaurant_interactions (scan_interactions events) v) = {r. interacted events v r}"
  "distinct (user_restaurant_interactions (scan_interactions events) v)"
  unfolding scan_interactions_def by (simp_all add: scan_uri_set scan_uri_distinct)

lemma add_similarity_keys:
  "fst ` set (add_similarity k s kvs) = insert k (fst ` set kvs)"
proof (induction kvs)
  case Nil
  show ?case by simp
next
  case (Cons p kvs)
  obtain k' v where "p = (k', v)" by (cases p)
  with Cons show ?case by (cases "k' = k") (simp_all add: insert_commute)
qed

lemma add_similarity_distinct:
  "distinct (map fst kvs) \<Longrightarrow> distinct (map fst (add_similarity k s kvs))"
proof (induction kvs)
  case Nil
  then show ?case by simp
next
  case (Cons p kvs)
  then show ?case
    using add_similarity_keys [of k s kvs] by (cases p) auto
qed

lemma add_similarity_total:
  "total_of (add_similarity k s kvs) k' = total_of kvs k' + (if k' = k then s else 0)"
  by (induction kvs) (auto simp: total_of_def)

lemma fold_add_similarity:
  assumes "distinct ks"
  shows "total_of (fold (\<lambda>res. add_similarity res s) ks kvs) k'
           = total_of kvs k' + (if k' \<in> set ks then s else 0)"
    and "fst ` set (fold (\<lambda>res. add_similarity res s) ks kvs) = set ks \<union> fst ` set kvs"
    and "distinct (map fst kvs) \<Longrightarrow> distinct (map fst (fold (\<lambda>res. add_similarity res s) ks kvs))"
  using assms
  by (induction ks arbitrary: kvs)
     (auto simp: add_similarity_total add_similarity_keys add_similarity_distinct)

lemma accumulate_fold:
  assumes "\<And>v. distinct (uri v)"
  shows "total_of (fold (\<lambda>(v, sim) cs. fold (\<lambda>res. add_similarity res sim) (uri v) cs) similar kvs) k
           = total_of kvs k + (\<Sum>(v, sim)\<leftarrow>similar. if k \<in> set (uri v) then sim else 0)"
    and "fst ` set (fold (\<lambda>(v, sim) cs. fold (\<lambda>res. add_similarity res sim) (uri v) cs) similar kvs)
           = (\<Union>(v, sim) \<in> set similar. set (uri v)) \<union> fst ` set kvs"
    and "distinct (map fst kvs) \<Longrightarrow>
         distinct (map fst (fold (\<lambda>(v, sim) cs. fold (\<lambda>res. add_similarity res sim) (uri v) cs)
                              similar kvs))"
proof (induction similar arbitrary: kvs)
  case Nil
  { case 1 show ?case by simp }
  { case 2 show ?case by simp }
  { case 3 then show ?case by simp }
next
  case (Cons p similar)
  obtain v sim where p: "p = (v, sim)" by (cases p)
  note f = fold_add_similarity [OF assms [of v], where s = sim]
  { case 1 show ?case by (simp add: p Cons.IH(1) f(1)) }
  { case 2 show ?case by (auto simp: p Cons.IH(2) f(2)) }
  { case 3 then show ?case by (simp add: p Cons.IH(3) f(3)) }
qed

text \<open>
  The accumulated scores for any order of walking the sets: one entry for every
  restaurant of a similar user, holding the sum of the similarities.
\<close>

lemma accumulate_scores_walk:
  assumes walk: "\<And>xs. mset (walk xs) = mset xs" and d: "\<And>v. distinct (uri v)"
  shows "distinct (map fst (accumulate_scores walk uri similar))"
    and "fst ` set (accumulate_scores walk uri similar) = (\<Union>p \<in> set similar. set (uri (fst p)))"
    and "(k, x) \<in> set (accumulate_scores walk uri similar)
         \<Longrightarrow> x = (\<Sum>(v, sim)\<leftarrow>similar. if k \<in> set (uri v) then sim else 0)"
proof -
  have s: "set (walk xs) = set xs" for xs
    using walk [of xs] by (rule mset_eq_setD)
  have dw: "distinct (walk (uri v))" for v
    using mset_eq_imp_distinct_iff [OF walk [of "uri v"]] d [of v] by simp
  note f = accumulate_fold [of "\<lambda>v. walk (uri v)", OF dw]
  show dist: "distinct (map fst (accumulate_scores walk uri similar))"
    unfolding accumulate_scores_def by (rule f(3)) simp
  show "fst ` set (accumulate_scores walk uri similar) = (\<Union>p \<in> set similar. set (uri (fst p)))"
    unfolding accumulate_scores_def f(2) by (auto simp: s)
  assume "(k, x) \<in> set (accumulate_scores walk uri similar)"
  with dist have "map_of (accumulate_scores walk uri similar) k = Some x" by simp
  then have "total_of (accumulate_scores walk uri similar) k = x" by (simp add: total_of_def)
  then show "x = (\<Sum>(v, sim)\<leftarrow>similar. if k \<in> set (uri v) then sim else 0)"
    unfolding accumulate_scores_def f(1) by (simp add: total_of_def s)
qed

lemma restaurant_dict_Some:
  assumes "restaurant_dict rs k = Some r"
  shows "r \<in> set rs \<and> rid r = k"
proof -
  from assms have "(k, r) \<in> set (rev (map (\<lambda>r. (rid r, r)) rs))"
    unfolding restaurant_dict_def by (rule map_of_SomeD)
  then show ?thesis by auto
qed

lemma restaurant_dict_None: "(restaurant_dict rs k = None) = (k \<notin> rid ` set rs)"
  unfolding restaurant_dict_def by (simp add: map_of_eq_None_iff image_image)

text \<open>The candidates that pass the filter, by id and by score.\<close>

lemma filter_scored_ids:
  "map (rid \<circ> cf_restaurant) (filter_scored (restaurant_dict rs) ur ps)
     = filter (\<lambda>i. i \<in> rid ` set rs \<and> i \<notin> set ur) (map fst ps)"
proof (induction ps)
  case Nil
  show ?case by simp
next
  case (Cons p ps)
  show ?case
  proof (cases "restaurant_dict rs (fst p)")
    case None
    then show ?thesis using Cons by (simp add: restaurant_dict_None [symmetric])
  next
    case (Some r)
    then have "fst p \<in> rid ` set rs" "rid r = fst p"
      using restaurant_dict_None [of rs "fst p"] restaurant_dict_Some [OF Some] by simp_all
    then show ?thesis using Cons Some by simp
  qed
qed

lemma filter_scored_entry:
  assumes "x \<in> set (filter_scored rd ur ps)"
  shows "\<exists>p \<in> set ps. rd (fst p) = Some (cf_restaurant x) \<and> fst p \<notin> set ur
           \<and> collaborative_score x = snd p"
  using assms by (induction ps) (auto split: option.splits if_splits)


lemma similarity_rows_key:
  assumes "map_of (similarity_rows users vs) u = Some row"
  shows "u \<in> set users"
proof (rule ccontr)
  assume "u \<notin> set users"
  then have "u \<notin> (!) users ` set [0..<length users]"
    by (auto simp: in_set_conv_nth)
  then have "map_of (similarity_rows users vs) u = None"
    unfolding similarity_rows_def by (simp add: map_of_keyed_None)
  with assms show False by simp
qed

lemma build_similarity_matrix_key:
  assumes "map_of (build_similarity_matrix events) u = Some row"
  shows "u \<noteq> []"
proof -
  from assms build_similarity_matrix_cases [of events]
  obtain vs where "map_of (similarity_rows (sort (user_ids (collect_interactions events))) vs) u
                     = Some row"
    by auto
  then have "u \<in> set (user_ids (collect_interactions events))"
    using similarity_rows_key by fastforce
  then obtain i where "valid_interaction i" "u = the (userId i)"
    unfolding set_user_ids by auto
  then show ?thesis using valid_interaction_the [of i] by simp
qed

lemma get_similar_users_top: "get_similar_users m u 10 = top_similar_users m u"
  by (simp add: get_similar_users_def top_similar_users_def slice_to_def sort_desc_def
        split: option.splits)

lemma top_similar_users_None: "map_of m u = None \<Longrightarrow> top_similar_users m u = []"
  by (simp add: top_similar_users_def)

text \<open>The function as one expression: every early exit returns what the last line would.\<close>

lemma get_collaborative_recommendations_unfold:
  "get_collaborative_recommendations walk st u rs k
     = slice_to k (sort_desc collaborative_score
         (filter_scored (restaurant_dict rs)
            (user_restaurant_interactions (scan_interactions (user_interactions st)) u)
            (accumulate_scores walk
               (user_restaurant_interactions (scan_interactions (user_interactions st)))
               (top_similar_users (user_similarity_matrix st) u))))"
proof -
  have empty: "slice_to k (sort_desc collaborative_score
         (filter_scored rd ur (accumulate_scores walk uri []))) = []" for rd ur uri
    by (simp add: accumulate_scores_def sort_desc_def slice_to_def)
  show ?thesis
  proof (cases "user_similarity_matrix st = [] \<or> map_of (user_similarity_matrix st) u = None")
    case True
    then have "map_of (user_similarity_matrix st) u = None" by auto
    then have "top_similar_users (user_similarity_matrix st) u = []"
      by (rule top_similar_users_None)
    with True show ?thesis
      by (simp only: get_collaborative_recommendations_def empty if_True)
  next
    case False
    show ?thesis
    proof (cases "top_similar_users (user_similarity_matrix st) u = []")
      case True
      with False show ?thesis
        by (simp only: get_collaborative_recommendations_def get_similar_users_top Let_def
              empty if_True if_False) simp
    next
      case nonempty: False
      with False show ?thesis
        by (simp only: get_collaborative_recommendations_def get_similar_users_top Let_def
              if_False)
    qed
  qed
qed

lemma candidates:
  assumes walk: "\<And>xs. mset (walk xs) = mset xs"
  defines "uri \<equiv> \<lambda>events. user_restaurant_interactions (scan_interactions events)"
  defines "cs \<equiv> \<lambda>events similar u rs.
     filter_scored (restaurant_dict rs) (uri events u) (accumulate_scores walk (uri events) similar)"
  shows "distinct (map (rid \<circ> cf_restaurant) (cs events similar u rs))"
    and "set (map (rid \<circ> cf_restaurant) (cs events similar u rs))
           = set (eligible events similar u rs)"
    and "length (cs events similar u rs) = length (eligible events similar u rs)"
    and "x \<in> set (cs events similar u rs) \<Longrightarrow>
           collaborative_score x = similarity_sum events similar (rid (cf_restaurant x))
           \<and> restaurant_dict rs (rid (cf_restaurant x)) = Some (cf_restaurant x)
           \<and> cf_restaurant x \<in> set rs"
proof -
  have d: "distinct (uri events v)" for v
    unfolding uri_def by (rule uri_scan_interactions(2))
  have mem: "(r \<in> set (uri events v)) = interacted events v r" for v r
    unfolding uri_def by (simp add: uri_scan_interactions(1))
  note a = accumulate_scores_walk [of walk "uri events", OF walk d]
  have ids: "map (rid \<circ> cf_restaurant) (cs events similar u rs)
               = filter (\<lambda>i. i \<in> rid ` set rs \<and> i \<notin> set (uri events u))
                   (map fst (accumulate_scores walk (uri events) similar))"
    unfolding cs_def by (rule filter_scored_ids)
  show dist: "distinct (map (rid \<circ> cf_restaurant) (cs events similar u rs))"
    unfolding ids using a(1) [of similar] by simp
  have keys: "set (map fst (accumulate_scores walk (uri events) similar))
                = (\<Union>p \<in> set similar. set (uri events (fst p)))"
    using a(2) [of similar] by simp
  show sets: "set (map (rid \<circ> cf_restaurant) (cs events similar u rs))
           = set (eligible events similar u rs)"
    unfolding ids set_filter keys eligible_def
    by (auto simp: mem list_ex_iff)
  have "length (cs events similar u rs) = length (map (rid \<circ> cf_restaurant) (cs events similar u rs))"
    by simp
  also have "\<dots> = card (set (map (rid \<circ> cf_restaurant) (cs events similar u rs)))"
    using dist by (rule distinct_card [symmetric])
  also have "\<dots> = card (set (eligible events similar u rs))"
    unfolding sets ..
  also have "\<dots> = length (eligible events similar u rs)"
    unfolding eligible_def by (rule distinct_card) simp
  finally show "length (cs events similar u rs) = length (eligible events similar u rs)" .
  assume "x \<in> set (cs events similar u rs)"
  then obtain p where p: "p \<in> set (accumulate_scores walk (uri events) similar)"
    "restaurant_dict rs (fst p) = Some (cf_restaurant x)" "collaborative_score x = snd p"
    unfolding cs_def using filter_scored_entry by blast
  from restaurant_dict_Some [OF p(2)]
  have r: "cf_restaurant x \<in> set rs" "rid (cf_restaurant x) = fst p"
    by simp_all
  have "(fst p, snd p) \<in> set (accumulate_scores walk (uri events) similar)"
    using p(1) by simp
  from a(3) [OF this]
  have "collaborative_score x = similarity_sum events similar (rid (cf_restaurant x))"
    by (simp add: p(3) r(2) mem similarity_sum_def)
  with p(2) r
  show "collaborative_score x = similarity_sum events similar (rid (cf_restaurant x))
           \<and> restaurant_dict rs (rid (cf_restaurant x)) = Some (cf_restaurant x)
           \<and> cf_restaurant x \<in> set rs"
    by simp
qed


lemma scenario_scan:
  "user_restaurant_interactions (scan_interactions scenario_log)
     = (\<lambda>u. [])(''a'' := [10], ''b'' := [10, 20])"
  by (simp add: scan_interactions_def scenario_log_def rated_def scan_interaction_def Let_def
        valid_interaction_def truthy_user_def truthy_restaurant_def fun_upd_twist)

lemma scenario_similar_users:
  "top_similar_users (user_similarity_matrix scenario_state) ''a'' = [(''b'', 10 / sqrt 164)]"
  by (simp add: top_similar_users_def scenario_state_matrix)

lemma walk_pair:
  assumes "mset (walk [a, b]) = mset [a, b]"
  shows "walk [a, b] = [a, b] \<or> walk [a, b] = [b, a]"
proof -
  from assms have "length (walk [a, b]) = 2"
    using mset_eq_length by fastforce
  then obtain x y where w: "walk [a, b] = [x, y]"
    by (cases "walk [a, b]"; cases "tl (walk [a, b])") auto
  from assms have "mset [x, y] = mset [a, b]" by (simp add: w)
  then have "(x = a \<and> y = b) \<or> (x = b \<and> y = a)"
    by (auto simp: add_eq_conv_ex)
  then show ?thesis by (auto simp: w)
qed

lemma scenario_recommendation:
  assumes "\<And>xs. mset (walk xs) = mset xs" and "restaurant_dict rs 20 = Some r" and "1 \<le> k"
  shows "get_collaborative_recommendations walk scenario_state ''a'' rs k
           = [\<lparr>cf_restaurant = r, collaborative_score = 10 / sqrt 164\<rparr>]"
proof -
  define uri where "uri = (\<lambda>u. [])(''a'' := [10 :: int], ''b'' := [10, 20])"
  have u: "uri ''a'' = [10]" "uri ''b'' = [10, 20]"
    by (simp_all add: uri_def)
  have "filter_scored (restaurant_dict rs) [10]
          (accumulate_scores walk uri [(''b'', 10 / sqrt 164)])
        = [\<lparr>cf_restaurant = r, collaborative_score = 10 / sqrt 164\<rparr>]"
    using walk_pair [of walk 10 20, OF assms(1)] assms(2)
    by (auto simp: accumulate_scores_def u split: option.splits)
  then have "get_collaborative_recommendations walk scenario_state ''a'' rs k
          = slice_to k (sort_desc collaborative_score
              [\<lparr>cf_restaurant = r, collaborative_score = 10 / sqrt 164\<rparr>])"
    unfolding get_collaborative_recommendations_unfold scenario_similar_users
      scenario_state_log scenario_scan uri_def [symmetric] u
    by simp
  with assms(3) show ?thesis
    by (simp add: sort_desc_def slice_to_def)
qed

text \<open>
  Claim C8. In a reachable state and for any order of walking a set,
  \<^verbatim>\<open>get_collaborative_recommendations\<close> returns no restaurant that an interaction of the
  target user names and only restaurants of the supplied catalog; the score of each is
  the sum of the similarities of those of the ten most similar users who interacted
  with it. No restaurant is returned twice, the results stand in descending order of
  score, and they are the top \<open>top_k\<close> of all that may be recommended: their number is
  the smaller of \<open>top_k\<close> and the number of eligible restaurants, and no eligible
  restaurant that was left out has a higher sum than one that was returned. In the
  scenario (user \<open>a\<close> rated restaurant 10 with 5, user \<open>b\<close> rated 10 with 5 and 20 with
  4), the recommendations for \<open>a\<close> are restaurant 20 alone, so it stands above every
  restaurant that neither user touched.
\<close>

theorem collaborative_recommendations:
  fixes u :: string and rs :: "restaurant list" and k :: int
  assumes "reachable st" and "\<And>xs. mset (walk xs) = mset xs"
  defines "events \<equiv> user_interactions st"
  defines "similar \<equiv> top_similar_users (user_similarity_matrix st) u"
  defines "out \<equiv> get_collaborative_recommendations walk st u rs k"
  shows "(\<forall>x \<in> set out.
            (\<forall>i \<in> set events.
               userId i = Some u \<longrightarrow> restaurantId i \<noteq> Some (rid (cf_restaurant x)))
            \<and> cf_restaurant x \<in> set rs
            \<and> rid (cf_restaurant x) \<in> set (eligible events similar u rs)
            \<and> collaborative_score x = similarity_sum events similar (rid (cf_restaurant x)))
         \<and> distinct (map (rid \<circ> cf_restaurant) out)
         \<and> sorted_wrt (\<lambda>x y. collaborative_score y \<le> collaborative_score x) out
         \<and> (0 \<le> k \<longrightarrow> length out = min (nat k) (length (eligible events similar u rs)))
         \<and> (\<forall>r \<in> set (eligible events similar u rs).
              r \<notin> rid ` cf_restaurant ` set out \<longrightarrow>
              (\<forall>x \<in> set out. similarity_sum events similar r \<le> collaborative_score x))
         \<and> (restaurant_dict rs 20 = Some r20 \<and> 1 \<le> k \<longrightarrow>
              get_collaborative_recommendations walk scenario_state ''a'' rs k
                = [\<lparr>cf_restaurant = r20, collaborative_score = 10 / sqrt 164\<rparr>])"
proof -
  define cs where "cs = filter_scored (restaurant_dict rs)
      (user_restaurant_interactions (scan_interactions events) u)
      (accumulate_scores walk (user_restaurant_interactions (scan_interactions events)) similar)"
  define ranked where "ranked = sort_desc collaborative_score cs"
  note c = candidates [OF assms(2), where events = events and similar = similar and u = u
      and rs = rs, folded cs_def]
  have out: "out = slice_to k ranked"
    unfolding out_def ranked_def cs_def events_def similar_def
    by (rule get_collaborative_recommendations_unfold)
  then obtain n where n: "out = take n ranked"
    using slice_to_take by metis
  have set_ranked: "set ranked = set cs"
    unfolding ranked_def by (rule set_sort_desc)
  have sorted: "sorted_wrt (\<lambda>x y. collaborative_score y \<le> collaborative_score x) ranked"
    unfolding ranked_def by (rule sorted_wrt_sort_desc)
  have sub: "x \<in> set cs" if "x \<in> set out" for x
    using that set_ranked unfolding n by (auto dest: in_set_takeD)
  have not_visited: "restaurantId i \<noteq> Some (rid (cf_restaurant x))"
    if x: "x \<in> set out" and i: "i \<in> set events" "userId i = Some u" for x i
  proof
    assume r: "restaurantId i = Some (rid (cf_restaurant x))"
    from sub [OF x] c(2) have e: "rid (cf_restaurant x) \<in> set (eligible events similar u rs)"
      by force
    then obtain p where p: "p \<in> set similar" "interacted events (fst p) (rid (cf_restaurant x))"
      and nu: "\<not> interacted events u (rid (cf_restaurant x))"
      by (auto simp: eligible_def list_ex_iff)
    from p(2) obtain j where "valid_interaction j" "restaurantId j = Some (rid (cf_restaurant x))"
      by (auto simp: interacted_iff)
    then have nz: "rid (cf_restaurant x) \<noteq> 0"
      using valid_interaction_the [of j] by simp
    from p(1) have "map_of (user_similarity_matrix st) u \<noteq> None"
      unfolding similar_def using top_similar_users_None by fastforce
    with reachable_matrix [OF assms(1)] have "u \<noteq> []"
      using build_similarity_matrix_key by fastforce
    with i(2) r nz have "valid_interaction i"
      by (simp add: valid_interaction_def truthy_user_def truthy_restaurant_def)
    with i r have "interacted events u (rid (cf_restaurant x))"
      by (auto simp: interacted_iff)
    with nu show False by simp
  qed
  have entries: "\<forall>x \<in> set out.
            (\<forall>i \<in> set events.
               userId i = Some u \<longrightarrow> restaurantId i \<noteq> Some (rid (cf_restaurant x)))
            \<and> cf_restaurant x \<in> set rs
            \<and> rid (cf_restaurant x) \<in> set (eligible events similar u rs)
            \<and> collaborative_score x = similarity_sum events similar (rid (cf_restaurant x))"
  proof (intro ballI conjI impI)
    fix x i
    assume x: "x \<in> set out"
    show "cf_restaurant x \<in> set rs"
      using c(4) [OF sub [OF x]] by simp
    show "collaborative_score x = similarity_sum events similar (rid (cf_restaurant x))"
      using c(4) [OF sub [OF x]] by simp
    show "rid (cf_restaurant x) \<in> set (eligible events similar u rs)"
      using sub [OF x] c(2) by force
    assume "i \<in> set events" "userId i = Some u"
    then show "restaurantId i \<noteq> Some (rid (cf_restaurant x))"
      by (rule not_visited [OF x])
  qed
  have "distinct (map (rid \<circ> cf_restaurant) ranked)"
    using mset_eq_imp_distinct_iff [of "map (rid \<circ> cf_restaurant) ranked"
        "map (rid \<circ> cf_restaurant) cs"] c(1)
    by (simp add: ranked_def mset_sort_desc)
  then have dist: "distinct (map (rid \<circ> cf_restaurant) out)"
    unfolding n by (simp add: take_map [symmetric] del: take_map)
  have srt: "sorted_wrt (\<lambda>x y. collaborative_score y \<le> collaborative_score x) out"
    unfolding n using sorted by (rule sorted_wrt_take)
  have len: "length out = min (nat k) (length (eligible events similar u rs))" if "0 \<le> k"
    unfolding out length_slice_to [OF that] c(3) [symmetric]
    by (simp add: ranked_def sort_desc_def)
  have top: "similarity_sum events similar r \<le> collaborative_score x"
    if r: "r \<in> set (eligible events similar u rs)" "r \<notin> rid ` cf_restaurant ` set out"
      and x: "x \<in> set out" for r x
  proof -
    from r(1) c(2) obtain y where y: "y \<in> set cs" "rid (cf_restaurant y) = r"
      by force
    from y r(2) have "y \<notin> set (take n ranked)"
      unfolding n by force
    moreover have "set ranked = set (take n ranked) \<union> set (drop n ranked)"
      by (metis append_take_drop_id set_append)
    ultimately have yd: "y \<in> set (drop n ranked)"
      using y(1) set_ranked by simp
    from sorted have "sorted_wrt (\<lambda>x y. collaborative_score y \<le> collaborative_score x)
                        (take n ranked @ drop n ranked)"
      by simp
    then have "collaborative_score y \<le> collaborative_score x"
      unfolding sorted_wrt_append using x yd n by simp
    with c(4) [OF y(1)] y(2) show ?thesis by simp
  qed
  have scenario: "get_collaborative_recommendations walk scenario_state ''a'' rs k
                = [\<lparr>cf_restaurant = r20, collaborative_score = 10 / sqrt 164\<rparr>]"
    if "restaurant_dict rs 20 = Some r20 \<and> 1 \<le> k"
    using that scenario_recommendation [OF assms(2)] by blast
  from entries dist srt len top scenario show ?thesis
    by blast
qed


lemma scenario_catalog_dict:
  "restaurant_dict scenario_catalog 20 = Some (blank_restaurant\<lparr>rid := 20\<rparr>)"
  "restaurant_dict scenario_catalog 30 = Some (blank_restaurant\<lparr>rid := 30\<rparr>)"
  "restaurant_dict scenario_catalog 10 = Some (blank_restaurant\<lparr>rid := 10\<rparr>)"
  by (simp_all add: restaurant_dict_def scenario_catalog_def blank_restaurant_def)

lemma residue_order_mset: "mset (residue_order xs) = mset xs"
  by (simp add: residue_order_def)

lemma three_user_collect:
  "user_ids (collect_interactions three_user_log) = [''c'', ''b'', ''a'']"
  "restaurant_ids (collect_interactions three_user_log) = [30, 20, 10]"
  "user_restaurant_matrix (collect_interactions three_user_log)
     = [(''a'', 10) \<mapsto> 10, (''b'', 10) \<mapsto> 6, (''b'', 20) \<mapsto> 8, (''c'', 10) \<mapsto> 8,
        (''c'', 30) \<mapsto> 6]"
  by (simp_all add: collect_interactions_def three_user_log_def rated_def record_interaction_def
        valid_interaction_def truthy_user_def truthy_restaurant_def interaction_score_def)

lemma three_user_matrix:
  "user_similarity_matrix (collab_init three_user_log)
     = [(''a'', [(''b'', 3 / 5), (''c'', 4 / 5)]), (''b'', [(''a'', 3 / 5), (''c'', 12 / 25)]),
        (''c'', [(''a'', 4 / 5), (''b'', 12 / 25)])]"
proof -
  have ne: "three_user_log \<noteq> []" by (simp add: three_user_log_def)
  have c: "cosine_similarity [10, 0, 0] [6, 8, 0] = 3 / 5"
    "cosine_similarity [6, 8, 0] [10, 0, 0] = 3 / 5"
    "cosine_similarity [10, 0, 0] [8, 0, 6] = 4 / 5"
    "cosine_similarity [8, 0, 6] [10, 0, 0] = 4 / 5"
    "cosine_similarity [6, 8, 0] [8, 0, 6] = 12 / 25"
    "cosine_similarity [8, 0, 6] [6, 8, 0] = 12 / 25"
    by (simp_all add: cosine_similarity_def l2_norm_def dot_def)
  show ?thesis
    by (simp add: collab_init_def build_similarity_matrix_def ne three_user_collect Let_def
          similarity_rows_def c)
qed

lemma three_user_similar:
  "top_similar_users (user_similarity_matrix (collab_init three_user_log)) ''a''
     = [(''c'', 4 / 5), (''b'', 3 / 5)]"
  by (simp add: top_similar_users_def three_user_matrix)

lemma three_user_scan:
  "user_restaurant_interactions (scan_interactions three_user_log)
     = (\<lambda>u. [])(''a'' := [10], ''b'' := [10, 20], ''c'' := [10, 30])"
  by (simp add: scan_interactions_def three_user_log_def rated_def scan_interaction_def Let_def
        valid_interaction_def truthy_user_def truthy_restaurant_def fun_upd_twist)

lemma three_user_recommendation:
  "get_collaborative_recommendations residue_order (collab_init three_user_log) ''a''
     scenario_catalog 1
     = [\<lparr>cf_restaurant = blank_restaurant\<lparr>rid := 30\<rparr>, collaborative_score = 4 / 5\<rparr>]"
proof -
  define uri where
    "uri = (\<lambda>u. [])(''a'' := [10 :: int], ''b'' := [10, 20], ''c'' := [10, 30])"
  have u: "uri ''a'' = [10]" "uri ''b'' = [10, 20]" "uri ''c'' = [10, 30]"
    by (simp_all add: uri_def)
  have acc: "accumulate_scores residue_order uri [(''c'', 4 / 5), (''b'', 3 / 5)]
               = [(10, 7 / 5), (30, 4 / 5), (20, 3 / 5)]"
    by (simp add: accumulate_scores_def u residue_order_def)
  have log: "user_interactions (collab_init three_user_log) = three_user_log"
    by (simp add: collab_init_def)
  show ?thesis
    unfolding get_collaborative_recommendations_unfold three_user_similar log three_user_scan
      uri_def [symmetric] u acc
    by (simp add: scenario_catalog_dict sort_desc_def slice_to_def)
qed

lemma three_user_eligible:
  "eligible three_user_log [(''c'', 4 / 5), (''b'', 3 / 5)] ''a'' scenario_catalog = [20, 30]"
  by (simp add: eligible_def scenario_catalog_def blank_restaurant_def interacted_def
        three_user_log_def rated_def valid_interaction_def truthy_user_def truthy_restaurant_def)

theorem collaborative_recommendations_witness:
  "reachable (collab_init three_user_log)
   \<and> top_similar_users (user_similarity_matrix (collab_init three_user_log)) ''a''
       = [(''c'', 4 / 5), (''b'', 3 / 5)]
   \<and> eligible three_user_log [(''c'', 4 / 5), (''b'', 3 / 5)] ''a'' scenario_catalog = [20, 30]
   \<and> similarity_sum three_user_log [(''c'', 4 / 5), (''b'', 3 / 5)] 20 = 3 / 5
   \<and> similarity_sum three_user_log [(''c'', 4 / 5), (''b'', 3 / 5)] 30 = 4 / 5
   \<and> get_collaborative_recommendations residue_order (collab_init three_user_log) ''a''
         scenario_catalog 1
       = [\<lparr>cf_restaurant = blank_restaurant\<lparr>rid := 30\<rparr>, collaborative_score = 4 / 5\<rparr>]
   \<and> reachable scenario_state
   \<and> get_collaborative_recommendations residue_order scenario_state ''a'' scenario_catalog 9
       = [\<lparr>cf_restaurant = blank_restaurant\<lparr>rid := 20\<rparr>, collaborative_score = 10 / sqrt 164\<rparr>]"
proof -
  have r: "reachable (collab_init three_user_log)"
    by (rule reachable.init)
  have s: "similarity_sum three_user_log [(''c'', 4 / 5), (''b'', 3 / 5)] 20 = 3 / 5"
    "similarity_sum three_user_log [(''c'', 4 / 5), (''b'', 3 / 5)] 30 = 4 / 5"
    by (simp_all add: similarity_sum_def interacted_def three_user_log_def rated_def
          valid_interaction_def truthy_user_def truthy_restaurant_def)
  have log: "user_interactions (collab_init three_user_log) = three_user_log"
    by (simp add: collab_init_def)
  from collaborative_recommendations [OF r residue_order_mset, where u = "''a''"
      and rs = scenario_catalog and k = 1 and ?r20.0 = "blank_restaurant\<lparr>rid := 20\<rparr>"]
    collaborative_recommendations [OF scenario_state_reachable residue_order_mset,
      where u = "''a''" and rs = scenario_catalog and k = 9
      and ?r20.0 = "blank_restaurant\<lparr>rid := 20\<rparr>"]
  show ?thesis
    by (simp add: r s log three_user_similar three_user_eligible three_user_recommendation
          scenario_state_reachable scenario_catalog_dict)
qed

section \<open>Provider failures stay inside the gateway\<close>

lemma except_empty_isl: "isl body \<Longrightarrow> except_empty body = []"
  by (cases body) (simp_all add: except_empty_def)

lemma fetch_provider_fails:
  assumes "provider_fails ai q loc n"
  shows "(if gemini_model ai \<noteq> None then fetch_with_gemini ai q loc n
          else fetch_with_openai ai q loc n) = []"
  using assms
  by (auto simp: provider_fails_def selected_client_def fetch_with_gemini_def
        fetch_with_openai_def except_empty_isl split: option.splits)

lemma fetch_restaurant_data_provider_fails:
  assumes "provider_fails ai (enhance_query q prefs) loc n"
  shows "fetch_restaurant_data ai st q loc n prefs = ([], st)"
  using fetch_provider_fails [OF assms]
  by (simp add: fetch_restaurant_data_def Let_def)

text \<open>
  Claim C9. An exception raised by the AI provider during a fetch, by the call itself
  (network, authentication) or by the parser on a reply that is not JSON, ends the
  \<^verbatim>\<open>try\<close> block and is caught there: the fetch functions return the empty list.
  \<^verbatim>\<open>fetch_restaurant_data\<close> then returns no restaurant and leaves the store as it was,
  and \<^verbatim>\<open>search_fetched_restaurants\<close> returns the stored matches alone. All of these
  are ordinary results: nothing is raised to the caller.
\<close>

theorem provider_errors_contained:
  "(gemini_model ai = Some model \<and> isl (fetch_body model (json_loads ai) (q, location_text loc, n))
      \<longrightarrow> fetch_with_gemini ai q loc n = [])
   \<and> (openai_client ai = Some client \<and> isl (fetch_body client (json_loads ai) (q, location_text loc, n))
      \<longrightarrow> fetch_with_openai ai q loc n = [])
   \<and> (isl (model' prompt) \<longrightarrow> isl (fetch_body model' parse prompt))
   \<and> (model' prompt = Inr reply \<and> isl (parse (strip_code_fences reply))
      \<longrightarrow> isl (fetch_body model' parse prompt))
   \<and> (provider_fails ai (enhance_query q prefs) loc n
      \<longrightarrow> fetch_restaurant_data ai st q loc n prefs = ([], st))
   \<and> (provider_fails ai (enhance_query q prefs) loc 5
      \<longrightarrow> search_fetched_restaurants ai st q loc prefs fetch_if_not_found
          = (filter (matches_query (lower q)) (fetched_data st), st))"
proof (intro conjI impI)
  assume "gemini_model ai = Some model \<and> isl (fetch_body model (json_loads ai) (q, location_text loc, n))"
  then show "fetch_with_gemini ai q loc n = []"
    by (simp add: fetch_with_gemini_def except_empty_isl)
next
  assume "openai_client ai = Some client \<and> isl (fetch_body client (json_loads ai) (q, location_text loc, n))"
  then show "fetch_with_openai ai q loc n = []"
    by (simp add: fetch_with_openai_def except_empty_isl)
next
  assume "isl (model' prompt)"
  then show "isl (fetch_body model' parse prompt)"
    by (cases "model' prompt") (simp_all add: fetch_body_def)
next
  assume "model' prompt = Inr reply \<and> isl (parse (strip_code_fences reply))"
  then show "isl (fetch_body model' parse prompt)"
    by (cases "parse (strip_code_fences reply)") (simp_all add: fetch_body_def)
next
  assume "provider_fails ai (enhance_query q prefs) loc n"
  then show "fetch_restaurant_data ai st q loc n prefs = ([], st)"
    by (rule fetch_restaurant_data_provider_fails)
next
  assume "provider_fails ai (enhance_query q prefs) loc 5"
  then have "fetch_restaurant_data ai st q loc 5 prefs = ([], st)"
    by (rule fetch_restaurant_data_provider_fails)
  then show "search_fetched_restaurants ai st q loc prefs fetch_if_not_found
               = (filter (matches_query (lower q)) (fetched_data st), st)"
    by (simp add: search_fetched_restaurants_def Let_def)
qed

theorem provider_errors_contained_witness:
  "provider_fails unreachable_gemini (enhance_query ''tacos'' None) None 5
   \<and> provider_fails garbled_openai (enhance_query ''tacos'' None) None 5
   \<and> fetch_restaurant_data unreachable_gemini empty_store ''tacos'' None 5 None = ([], empty_store)
   \<and> fetch_restaurant_data garbled_openai empty_store ''tacos'' None 5 None = ([], empty_store)
   \<and> search_fetched_restaurants unreachable_gemini empty_store ''tacos'' None None True
       = ([], empty_store)
   \<and> search_fetched_restaurants garbled_openai empty_store ''tacos'' None None True
       = ([], empty_store)"
proof -
  have g: "provider_fails unreachable_gemini (enhance_query ''tacos'' None) None 5"
    by (simp add: provider_fails_def selected_client_def unreachable_gemini_def fetch_body_def)
  have o: "provider_fails garbled_openai (enhance_query ''tacos'' None) None 5"
    by (simp add: provider_fails_def selected_client_def garbled_openai_def fetch_body_def)
  from g o
    provider_errors_contained [where ai = unreachable_gemini and q = "''tacos''" and loc = None
      and n = 5 and prefs = None and st = empty_store and fetch_if_not_found = True]
    provider_errors_contained [where ai = garbled_openai and q = "''tacos''" and loc = None
      and n = 5 and prefs = None and st = empty_store and fetch_if_not_found = True]
  show ?thesis by (simp add: empty_store_def)
qed

section \<open>Deduplication of fetched candidates\<close>

lemma duplicate_among_same_name:
  assumes "e \<in> set existing" and "normalize_text (restaurantName e) = new_name"
  shows "duplicate_among new_name new_address existing"
  using assms by (induction existing) (auto simp: Let_def)

lemma is_duplicate_same_name:
  assumes "normalize_text (restaurantName c) \<noteq> []" and "e \<in> set existing"
    and "normalize_text (restaurantName e) = normalize_text (restaurantName c)"
  shows "is_duplicate c existing"
  using assms duplicate_among_same_name [OF assms(2,3)]
  by (simp add: is_duplicate_def Let_def)

lemma normalize_twins:
  "normalize_text ''Taco Town'' = ''taco town''" "normalize_text ''taco town!'' = ''taco town''"
  by (simp_all add: normalize_text_def lower_def lower_char_def strip_def is_space_def
        is_word_char_def)

text \<open>
  Claim C5 does not hold of the code. Every candidate of one reply is compared with
  the restaurants that existed before the call (\<open>is_duplicate_same_name\<close> above: a
  candidate whose normalized name is that of an existing restaurant is dropped), and
  never with the candidates admitted earlier in the same reply. Two candidates with
  the same normalized name \<open>taco town\<close>, returned for an empty catalog and an empty
  store, are both given an id and both persisted.
\<close>

theorem duplicate_candidates_both_persisted:
  "map (normalize_text \<circ> restaurantName) twin_candidates = [''taco town'', ''taco town'']
   \<and> map (\<lambda>r. (rid r, restaurantName r))
         (fst (fetch_restaurant_data twin_gemini empty_store ''tacos'' None 5 None))
       = [(1000, ''Taco Town''), (1001, ''taco town!'')]
   \<and> map (\<lambda>r. (rid r, restaurantName r))
         (fetched_data (snd (fetch_restaurant_data twin_gemini empty_store ''tacos'' None 5 None)))
       = [(1000, ''Taco Town''), (1001, ''taco town!'')]"
  by (simp add: fetch_restaurant_data_def Let_def twin_gemini_def fetch_with_gemini_def
        fetch_body_def except_empty_def enhance_query_def empty_store_def twin_candidates_def
        is_duplicate_def normalize_twins provenance_def blank_restaurant_def)

theorem duplicate_candidates_both_persisted_witness:
  "length (fetched_data (snd (fetch_restaurant_data twin_gemini empty_store ''tacos'' None 5 None)))
     = 2"
proof -
  from duplicate_candidates_both_persisted
  have "length (map (\<lambda>r. (rid r, restaurantName r))
          (fetched_data (snd (fetch_restaurant_data twin_gemini empty_store ''tacos'' None 5 None))))
        = length [(1000 :: int, ''Taco Town''), (1001, ''taco town!'')]"
    by (simp only:)
  then show ?thesis by simp
qed

section \<open>A ranking request run twice\<close>

lemma lower_literals:
  "lower ''happy'' = ''happy''" "lower ''lunch'' = ''lunch''" "lower ''any'' = ''any''"
  "lower ''non-vegetarian'' = ''non-vegetarian''" "lower ''noon'' = ''noon''"
  "lower ''mexican'' = ''mexican''" "lower [] = []"
  by (simp_all add: lower_def lower_char_def)

lemma lone_engine_eq:
  "lone_engine =
     \<lparr>base_engine_restaurants = [cantina], search_matcher_restaurants = [cantina],
      collab_filter = collab_init [],
      ai_fetcher = \<lparr>base_restaurants = [], fetched_data = [cantina]\<rparr>\<rparr>"
  by (simp add: lone_engine_def engine_init_def merge_ai_restaurants_def Let_def)

lemma override_lone: "override_preferences lone_request = lone_request\<lparr>req_cuisine := ''mexican''\<rparr>"
  by (simp add: override_preferences_def lone_request_def truthy_def
        match_query_to_preferences_def Let_def first_match_def mood_keywords_def
        occasion_keywords_def cuisine_keywords_def any_in_def lower_literals)

lemma keywords_lone: "extract_keywords ''mexican'' = [''mexican'']"
  by (simp add: extract_keywords_def Let_def lower_literals is_word_char_def is_space_def
        split_def)

lemma cosine_unit: "cosine_similarity [1] [1] = 1"
  by (simp add: cosine_similarity_def l2_norm_def dot_def)

lemma search_lone_first: "search unit_vectors [cantina] ''mexican'' 9 (1 / 10) = Inr [cantina_found]"
  by (simp add: search_def Let_def unit_vectors_def single_element_truth_def keywords_lone
        search_candidate_def cosine_unit keyword_match_score_def cantina_def
        blank_restaurant_def lower_literals sort_desc_def slice_to_def cantina_found_def)

lemma search_lone_second:
  "search unit_vectors [cantina, cantina] ''mexican'' 9 (1 / 10)
     = Inl (ValueError ''The truth value of an array with more than one element is ambiguous.'')"
  by (simp add: search_def Let_def unit_vectors_def single_element_truth_def)

lemma content_lone:
  "base_recommend unit_vectors [cantina] ''happy'' ''lunch'' ''mexican'' ''non-vegetarian'' ''noon'' None
     = [\<lparr>restaurant = cantina, score = 13 / 20\<rparr>]"
  by (simp add: base_recommend_def sort_desc_def scored_restaurants_def Let_def
        process_additional_notes_def check_dietary_compatibility_def content_final_score_def
        calculate_mood_score_def calculate_occasion_score_def calculate_time_score_def
        check_cuisine_match_def calculate_notes_score_def calculate_content_similarity_def
        unit_vectors_def cosine_unit cantina_def blank_restaurant_def lower_literals)

lemma matches_cantina: "matches_query ''mexican'' cantina"
  by (simp add: matches_query_def Let_def cantina_def blank_restaurant_def lower_def
        lower_char_def)

lemma ai_match_cantina:
  "ai_match cantina ''happy'' ''lunch'' ''mexican''
     = \<lparr>ai_restaurant = cantina, ai_match_score = 7 / 10, ai_source = ''ai''\<rparr>"
  by (simp add: ai_match_def Let_def cantina_def blank_restaurant_def lower_literals)

lemma search_fetched_lone:
  "search_fetched_restaurants no_ai
     \<lparr>base_restaurants = [], fetched_data = [cantina]\<rparr> ''mexican'' None prefs True
     = ([cantina], \<lparr>base_restaurants = [], fetched_data = [cantina]\<rparr>)"
  by (simp add: search_fetched_restaurants_def Let_def matches_cantina lower_literals)

lemma combine_lone:
  "map (\<lambda>x. (rid (fr_restaurant x), fr_score x))
     (combine_recommendations [\<lparr>restaurant = cantina, score = 13 / 20\<rparr>] [] [cantina_found]
        [\<lparr>ai_restaurant = cantina, ai_match_score = 7 / 10, ai_source = ''ai''\<rparr>])
   = [(1000, 779 / 1000)]"
  by (simp add: combine_recommendations_def collect_scores_def add_result_def Let_def
        cantina_found_def zero_scores_def final_entry_def weighted_score_def
        adjusted_weights_def source_weights_def content_norm_def collab_norm_def
        search_norm_def ai_norm_def sort_desc_def cantina_def blank_restaurant_def)

lemma recommend_lone_first:
  "recommend unit_vectors walk no_ai lone_engine lone_request
     = Inr (take 9 (combine_recommendations [\<lparr>restaurant = cantina, score = 13 / 20\<rparr>] []
                     [cantina_found]
                     [\<lparr>ai_restaurant = cantina, ai_match_score = 7 / 10, ai_source = ''ai''\<rparr>]),
            lone_engine\<lparr>base_engine_restaurants := [cantina, cantina],
                         search_matcher_restaurants := [cantina, cantina]\<rparr>)"
  unfolding recommend_def rank_with_def override_lone
  by (simp add: lone_engine_eq lone_request_def truthy_def Let_def search_lone_first
        content_lone search_fetched_lone ai_match_cantina merge_ai_restaurants_def)

lemma recommend_lone_second:
  "recommend unit_vectors walk no_ai
     (lone_engine\<lparr>base_engine_restaurants := [cantina, cantina],
                  search_matcher_restaurants := [cantina, cantina]\<rparr>) lone_request
     = Inl (ValueError ''The truth value of an array with more than one element is ambiguous.'')"
  unfolding recommend_def
  by (simp add: lone_engine_eq lone_request_def truthy_def search_lone_second)

text \<open>
  Where the request cannot reach the enrichment step (no search query, or
  \<^verbatim>\<open>use_ai_fetch\<close> off), \<^verbatim>\<open>recommend\<close> leaves the engine as it found it, so a second call
  computes the same value.
\<close>

lemma rank_with_keeps_engine:
  assumes "\<not> (req_use_ai_fetch rq \<and> truthy (req_search_query rq))"
  shows "snd (rank_with sk walk ai e rq search_results) = e"
proof -
  have "req_use_ai_fetch (override_preferences rq) = req_use_ai_fetch rq"
    and "req_search_query (override_preferences rq) = req_search_query rq"
    by (simp_all add: override_preferences_def Let_def)
  with assms show ?thesis
    by (auto simp: rank_with_def Let_def)
qed

lemma recommend_keeps_engine:
  assumes "\<not> (req_use_ai_fetch rq \<and> truthy (req_search_query rq))"
  shows "engine_after e (recommend sk walk ai e rq) = e"
proof -
  have "engine_after e (Inr (rank_with sk walk ai e rq search_results)) = e" for search_results
    using rank_with_keeps_engine [OF assms, of sk walk ai e search_results]
    by (cases "rank_with sk walk ai e rq search_results") (simp add: engine_after_def)
  then show ?thesis
    by (cases "search sk (search_matcher_restaurants e) (the (req_search_query rq)) 9 0.1")
      (simp_all add: recommend_def engine_after_def)
qed

lemma recommend_twice_same:
  assumes "\<not> (req_use_ai_fetch rq \<and> truthy (req_search_query rq))"
  shows "snd (recommend_twice sk walk ai e rq) = fst (recommend_twice sk walk ai e rq)"
  by (simp add: recommend_twice_def Let_def recommend_keeps_engine [OF assms])

lemma engine_after_lone:
  "engine_after lone_engine (recommend unit_vectors walk no_ai lone_engine lone_request)
     = lone_engine\<lparr>base_engine_restaurants := [cantina, cantina],
                    search_matcher_restaurants := [cantina, cantina]\<rparr>"
  by (simp add: recommend_lone_first engine_after_def)

lemma ranking_lone_first:
  "ranking (recommend unit_vectors walk no_ai lone_engine lone_request) = Inr [(1000, 779 / 1000)]"
  unfolding recommend_lone_first ranking_def sum.case prod.case take_map [symmetric]
    combine_lone
  by simp

text \<open>
  Claim C7 does not hold of the code. \<^verbatim>\<open>recommend\<close> calls \<^verbatim>\<open>_merge_ai_restaurants\<close>
  whenever the enrichment step returns a restaurant, also when every one of them was
  already in the fetched store and nothing was fetched; the merge appends the whole
  fetched store to the in-memory catalog once more. No store is written: the fetched
  store and the interaction log of the engine are what they were. On an engine whose
  catalog is one fetched restaurant, the first call returns a ranking and leaves a
  catalog that holds the restaurant twice; the index of the search matcher then has
  two rows, and the second call raises \<^verbatim>\<open>ValueError\<close> when \<^verbatim>\<open>search\<close> asks for its truth
  value.
\<close>

theorem repeated_request_differs:
  "ranking (fst (recommend_twice unit_vectors walk no_ai lone_engine lone_request))
     = Inr [(1000, 779 / 1000)]
   \<and> ranking (snd (recommend_twice unit_vectors walk no_ai lone_engine lone_request))
     = Inl (ValueError ''The truth value of an array with more than one element is ambiguous.'')
   \<and> ai_fetcher (engine_after lone_engine
         (recommend unit_vectors walk no_ai lone_engine lone_request)) = ai_fetcher lone_engine
   \<and> collab_filter (engine_after lone_engine
         (recommend unit_vectors walk no_ai lone_engine lone_request)) = collab_filter lone_engine
   \<and> map rid (base_engine_restaurants lone_engine) = [1000]
   \<and> map rid (base_engine_restaurants (engine_after lone_engine
         (recommend unit_vectors walk no_ai lone_engine lone_request))) = [1000, 1000]"
proof (intro conjI)
  show "ranking (fst (recommend_twice unit_vectors walk no_ai lone_engine lone_request))
     = Inr [(1000, 779 / 1000)]"
    by (simp add: recommend_twice_def Let_def ranking_lone_first)
  show "ranking (snd (recommend_twice unit_vectors walk no_ai lone_engine lone_request))
     = Inl (ValueError ''The truth value of an array with more than one element is ambiguous.'')"
    by (simp add: recommend_twice_def Let_def engine_after_lone recommend_lone_second
          ranking_def)
  show "ai_fetcher (engine_after lone_engine
         (recommend unit_vectors walk no_ai lone_engine lone_request)) = ai_fetcher lone_engine"
    by (simp add: engine_after_lone)
  show "collab_filter (engine_after lone_engine
         (recommend unit_vectors walk no_ai lone_engine lone_request)) = collab_filter lone_engine"
    by (simp add: engine_after_lone)
  show "map rid (base_engine_restaurants lone_engine) = [1000]"
    by (simp add: lone_engine_eq cantina_def blank_restaurant_def)
  show "map rid (base_engine_restaurants (engine_after lone_engine
         (recommend unit_vectors walk no_ai lone_engine lone_request))) = [1000, 1000]"
    by (simp add: engine_after_lone cantina_def blank_restaurant_def)
qed

theorem repeated_request_differs_witness:
  "ranking (snd (recommend_twice unit_vectors residue_order no_ai lone_engine lone_request))
     \<noteq> ranking (fst (recommend_twice unit_vectors residue_order no_ai lone_engine lone_request))"
  using repeated_request_differs [of residue_order] by simp

end
